theory Spec2Isabelle
  imports Complex_Main "HOL-Library.Word" "HOL-Library.Log_Nat"
begin

section \<open>JavaScript strings and numbers\<close>

text \<open>
  A JavaScript string is a sequence of UTF-16 code units, and \<open>slice\<close>, \<open>trim\<close>,
  \<open>replace\<close> and \<open>padStart\<close> work on code units. The bot's texts contain emoji, which
  are one or two code units beyond ASCII, so a string is a list of 16-bit words and the
  ASCII parts of a literal are embedded with \<open>str\<close>.
\<close>

type_synonym jschar = "16 word"
type_synonym jsstring = "jschar list"

definition str :: "string \<Rightarrow> jsstring" where
  "str s = map of_char s"

definition nl :: jsstring where
  "nl = [10]"

text \<open>
  The numbers of the program are the duration and what is computed from it. A number of
  JavaScript is a double; the model keeps the integers and \<open>NaN\<close>. An integer below
  \<open>2 ^ 53\<close> in absolute value is an exact double, and \<open>d % 60\<close> and \<open>d <= 120\<close> are exact
  on doubles. The one operation here whose result is rounded is the quotient \<open>d / 60\<close>.
\<close>

datatype jsnumber = Num int | NaN

text \<open>\<open>a <= b\<close>: every comparison with \<open>NaN\<close> is false.\<close>

fun js_le :: "jsnumber \<Rightarrow> jsnumber \<Rightarrow> bool" where
  "js_le (Num a) (Num b) = (a \<le> b)"
| "js_le _ _ = False"

text \<open>The integer nearest to \<open>x\<close>, the even one of the two when \<open>x\<close> is half way.\<close>

definition round_half_even :: "rat \<Rightarrow> int" where
  "round_half_even x =
     (let f = \<lfloor>x\<rfloor>; r = x - of_int f
      in if r < 1 / 2 then f else if 1 / 2 < r then f + 1 else if even f then f else f + 1)"

text \<open>For \<open>0 < x\<close>, the exponent \<open>e\<close> with \<open>2 ^ e \<le> x < 2 ^ (e + 1)\<close>.\<close>

definition binade :: "rat \<Rightarrow> int" where
  "binade x =
     (if 1 \<le> x then int (floorlog 2 (nat \<lfloor>x\<rfloor>)) - 1
      else - int (floorlog 2 (nat (\<lceil>1 / x\<rceil> - 1))))"

text \<open>
  The double nearest to \<open>x\<close>: a significand of 53 bits, rounded to nearest, ties to
  even (IEEE 754 binary64). The quotients of this program are far inside the range of
  the exponent of a double, which is left out.
\<close>

definition double :: "rat \<Rightarrow> rat" where
  "double x =
     (if x = 0 then 0
      else let ulp = 2 powi (binade \<bar>x\<bar> - 52)
           in of_int (round_half_even (x / ulp)) * ulp)"

text \<open>
  \<open>Math.floor (a / b)\<close> for a non-zero integer literal \<open>b\<close>: the quotient is a double
  before \<open>Math.floor\<close> is applied to it.
\<close>

fun Math_floor_div :: "jsnumber \<Rightarrow> int \<Rightarrow> jsnumber" where
  "Math_floor_div (Num a) b = Num \<lfloor>double (of_int a / of_int b)\<rfloor>"
| "Math_floor_div NaN b = NaN"

text \<open>\<open>a % b\<close>: the remainder has the sign of the dividend.\<close>

fun js_rem :: "jsnumber \<Rightarrow> int \<Rightarrow> jsnumber" where
  "js_rem (Num a) b = Num (sgn a * (\<bar>a\<bar> mod \<bar>b\<bar>))"
| "js_rem NaN b = NaN"

text \<open>The decimal digits of a natural number, most significant first.\<close>

function decimal :: "nat \<Rightarrow> jsstring" where
  "decimal n =
     (if n < 10 then [of_nat (48 + n)]
      else decimal (n div 10) @ [of_nat (48 + n mod 10)])"
  by pat_completeness auto
termination
  by (relation "measure (\<lambda>n. n)") auto

declare decimal.simps [simp del]

text \<open>
  \<open>String (x)\<close>, which a template literal applies to a number as well. An integer below
  \<open>2 ^ 53\<close> in absolute value prints as its decimal digits. A larger one prints with the
  fewest digits that still name the double, and with an exponent from \<open>10 ^ 21\<close> on; the
  program prints minutes and seconds only, and no number that large is printed below.
\<close>

definition String_js :: "jsnumber \<Rightarrow> jsstring" where
  "String_js x =
     (case x of
        NaN \<Rightarrow> str ''NaN''
      | Num i \<Rightarrow> if i < 0 then str ''-'' @ decimal (nat (- i)) else decimal (nat i))"

text \<open>
  \<open>s.padStart (n, fill)\<close>: a string of \<open>n\<close> or more code units, or an empty filler,
  leaves \<open>s\<close> as it is; otherwise the filler is repeated and cut to the missing length.
\<close>

definition padStart :: "nat \<Rightarrow> jsstring \<Rightarrow> jsstring \<Rightarrow> jsstring" where
  "padStart n fill s =
     (if n \<le> length s \<or> fill = [] then s
      else take (n - length s) (concat (replicate (n - length s) fill)) @ s)"

text \<open>
  The white space that \<open>trim\<close> and the conversion of a string to a number strip: the
  WhiteSpace and LineTerminator code units of ECMAScript.
\<close>

definition isStrWhiteSpace :: "jschar \<Rightarrow> bool" where
  "isStrWhiteSpace c \<longleftrightarrow>
     c \<in> {0x09, 0x0A, 0x0B, 0x0C, 0x0D, 0x20, 0xA0, 0x1680, 0x2028, 0x2029,
          0x202F, 0x205F, 0x3000, 0xFEFF} \<or> (0x2000 \<le> c \<and> c \<le> 0x200A)"

definition trim :: "jsstring \<Rightarrow> jsstring" where
  "trim s = rev (dropWhile isStrWhiteSpace (rev (dropWhile isStrWhiteSpace s)))"

definition isDigit :: "jschar \<Rightarrow> bool" where
  "isDigit c \<longleftrightarrow> 0x30 \<le> c \<and> c \<le> 0x39"

definition digits_value :: "jsstring \<Rightarrow> nat" where
  "digits_value ds = foldl (\<lambda>a c. 10 * a + (unat c - 48)) 0 ds"

text \<open>
  \<open>Number (s)\<close> on a string: white space is trimmed, the empty string is \<open>0\<close>, and an
  optionally signed run of decimal digits is its value. A string with no numeric
  reading is \<open>NaN\<close>. The extraction library hands \<open>lengthSeconds\<close> over as a string of
  decimal digits; the literals of ECMAScript whose value is not held by \<open>jsnumber\<close>
  (a fraction, an exponent, a radix prefix, \<open>Infinity\<close>) are outside this model and
  fall to its last case. What is proved about \<open>NaN\<close> below is therefore stated for the
  strings that \<open>not_numeric\<close> recognises, which are \<open>NaN\<close> in ECMAScript as well. A run
  of digits is read as the integer it writes; \<open>Number\<close> rounds that integer to a double,
  which changes it only from \<open>2 ^ 53\<close> on.
\<close>

definition unsigned_js :: "jsstring \<Rightarrow> jsnumber" where
  "unsigned_js ds = (if ds \<noteq> [] \<and> list_all isDigit ds then Num (int (digits_value ds)) else NaN)"

definition Number_js :: "jsstring \<Rightarrow> jsnumber" where
  "Number_js s =
     (case trim s of
        [] \<Rightarrow> Num 0
      | c # cs \<Rightarrow>
          if c = 0x2B then unsigned_js cs
          else if c = 0x2D then (case unsigned_js cs of Num i \<Rightarrow> Num (- i) | NaN \<Rightarrow> NaN)
          else unsigned_js (c # cs))"

text \<open>
  The strings that \<open>Number\<close> reads as a number, after the grammar \<open>StringNumericLiteral\<close> of
  ECMAScript: a decimal literal is an optional sign before \<open>Infinity\<close> or before digits
  with an optional point and an optional exponent (at least one digit beside the
  point); the other literals are \<open>0x\<close>, \<open>0o\<close> and \<open>0b\<close> with digits of that radix. A string is
  \<open>not_numeric\<close> when, trimmed, it is not empty and is none of these.
\<close>

definition mantissa :: "jsstring \<Rightarrow> bool" where
  "mantissa m \<longleftrightarrow>
     (let a = takeWhile isDigit m; r = dropWhile isDigit m
      in (a \<noteq> [] \<and> r = []) \<or>
         (r \<noteq> [] \<and> hd r = 0x2E \<and> list_all isDigit (tl r) \<and> (a \<noteq> [] \<or> tl r \<noteq> [])))"

definition exponent :: "jsstring \<Rightarrow> bool" where
  "exponent x \<longleftrightarrow>
     (case x of
        [] \<Rightarrow> False
      | c # cs \<Rightarrow>
          if c = 0x2B \<or> c = 0x2D then cs \<noteq> [] \<and> list_all isDigit cs
          else list_all isDigit (c # cs))"

definition StrUnsignedDecimalLiteral :: "jsstring \<Rightarrow> bool" where
  "StrUnsignedDecimalLiteral u \<longleftrightarrow>
     u = str ''Infinity'' \<or>
     (let m = takeWhile (\<lambda>c. c \<noteq> 0x65 \<and> c \<noteq> 0x45) u;
          x = dropWhile (\<lambda>c. c \<noteq> 0x65 \<and> c \<noteq> 0x45) u
      in mantissa m \<and> (x = [] \<or> exponent (tl x)))"

definition StrDecimalLiteral :: "jsstring \<Rightarrow> bool" where
  "StrDecimalLiteral t \<longleftrightarrow>
     (case t of
        [] \<Rightarrow> False
      | c # cs \<Rightarrow>
          if c = 0x2B \<or> c = 0x2D then StrUnsignedDecimalLiteral cs
          else StrUnsignedDecimalLiteral (c # cs))"

definition isHexDigit :: "jschar \<Rightarrow> bool" where
  "isHexDigit c \<longleftrightarrow> isDigit c \<or> (0x61 \<le> c \<and> c \<le> 0x66) \<or> (0x41 \<le> c \<and> c \<le> 0x46)"

definition NonDecimalIntegerLiteral :: "jsstring \<Rightarrow> bool" where
  "NonDecimalIntegerLiteral t \<longleftrightarrow>
     (case t of
        z # p # ds \<Rightarrow>
          z = 0x30 \<and> ds \<noteq> [] \<and>
          ((p = 0x78 \<or> p = 0x58) \<and> list_all isHexDigit ds \<or>
           (p = 0x6F \<or> p = 0x4F) \<and> list_all (\<lambda>c. 0x30 \<le> c \<and> c \<le> 0x37) ds \<or>
           (p = 0x62 \<or> p = 0x42) \<and> list_all (\<lambda>c. c = 0x30 \<or> c = 0x31) ds)
      | _ \<Rightarrow> False)"

definition not_numeric :: "jsstring \<Rightarrow> bool" where
  "not_numeric s \<longleftrightarrow>
     trim s \<noteq> [] \<and> \<not> StrDecimalLiteral (trim s) \<and> \<not> NonDecimalIntegerLiteral (trim s)"

text \<open>
  The duration as every caption and status text prints it (index.js lines 81 and 125,
  the second file lines 58, 106 and 176):
  \<^verbatim>\<open>${Math.floor(duration / 60)}:${String(duration % 60).padStart(2, '0')}\<close>
\<close>

definition duration_text :: "jsnumber \<Rightarrow> jsstring" where
  "duration_text duration =
     String_js (Math_floor_div duration 60) @ str '':'' @
     padStart 2 (str ''0'') (String_js (js_rem duration 60))"


section \<open>The services around one request\<close>

text \<open>
  The bot talks to three services: the extraction library (\<open>ytdl\<close>), the messaging
  transport (\<open>ctx\<close>) and the file system (\<open>fs\<close>). Each call to one of them is written
  to a trace, in order. What a service answers is fixed by an environment, so that a
  statement about every environment is a statement about every way the services can
  behave, rejections included.
\<close>

datatype error = Error jsstring

text \<open>\<open>err.message\<close>\<close>

fun err_message :: "error \<Rightarrow> jsstring" where
  "err_message (Error m) = m"

record videoDetails =
  details_title :: jsstring
  details_lengthSeconds :: jsstring

text \<open>
  The options of \<open>ytdl (url, options)\<close>. Every filter of the program asks for a format
  with video and audio; \<open>container_mp4\<close> says whether it also asks for the mp4 container.
\<close>

record options =
  container_mp4 :: bool
  quality :: "jsstring list"
  userAgent :: "jsstring option"

datatype source = Stream jsstring options | File jsstring

datatype message = TextMessage jsstring | VideoMessage source jsstring | Deleted

datatype event =
    Call_streamVideo jsstring jsstring jsnumber "nat option"
  | Call_downloadVideo jsstring jsstring jsnumber "nat option"
  | GetInfo jsstring "jsstring option"
  | Ytdl jsstring options
  | Reply jsstring
  | EditMessageText nat jsstring
  | DeleteMessage nat
  | SendVideo source jsstring
  | CreateWriteStream jsstring
  | UnlinkSync jsstring

text \<open>
  The state one request works on: the messages of the chat (a message id is the
  position of the message), the files of the scratch directory with their sizes in
  bytes, and the trace. The two \<open>Call\<close> events mark the entry into the program's own
  two delivery functions, with their arguments.
\<close>

record world =
  chat :: "message list"
  files :: "(jsstring \<times> nat) list"
  trace :: "event list"

definition init :: world where
  "init = \<lparr>chat = [], files = [], trace = []\<rparr>"

text \<open>
  What piping the media stream into the file comes to: the write finishes with a file
  of some size, or the stream or the file reports an error, with or without a partial
  file on disk at that moment.
\<close>

datatype transfer = Finished nat | Broken jsstring "nat option"

text \<open>The places where the program calls the messaging transport.\<close>

datatype site =
    Reply_invalid | Reply_status | Edit_info | Edit_failed
  | Edit_streaming | Send_stream | Delete_streamed | Reply_streamed | Delete_fallback
  | Edit_downloading | Edit_too_large | Send_file | Delete_downloaded | Reply_downloaded
  | Edit_download_failed

record env =
  validateURL :: "jsstring \<Rightarrow> bool"
  getInfo :: "jsstring \<Rightarrow> jsstring + videoDetails"
  now :: nat
  dirname :: jsstring
  piped :: transfer
  rejects :: "site \<Rightarrow> jsstring option"

subsection \<open>Promises and exceptions\<close>

text \<open>
  A computation takes the world and returns the new one, with a value or the error it
  threw or rejected with. Every \<open>await\<close> of the source is an \<open>io_bind\<close>.
\<close>

type_synonym 'a io = "world \<Rightarrow> (error + 'a) \<times> world"

definition io_return :: "'a \<Rightarrow> 'a io" where
  "io_return x w = (Inr x, w)"

definition throw :: "error \<Rightarrow> 'a io" where
  "throw e w = (Inl e, w)"

definition io_bind :: "'a io \<Rightarrow> ('a \<Rightarrow> 'b io) \<Rightarrow> 'b io" where
  "io_bind m f w = (case m w of (Inl e, w') \<Rightarrow> (Inl e, w') | (Inr x, w') \<Rightarrow> f x w')"

definition try_catch :: "'a io \<Rightarrow> (error \<Rightarrow> 'a io) \<Rightarrow> 'a io" where
  "try_catch m h w = (case m w of (Inl e, w') \<Rightarrow> h e w' | (Inr x, w') \<Rightarrow> (Inr x, w'))"

text \<open>A call whose promise is dropped: its rejection reaches nobody in the request.\<close>

definition not_awaited :: "'a io \<Rightarrow> unit io" where
  "not_awaited m w = (Inr (), snd (m w))"

definition emit :: "event \<Rightarrow> unit io" where
  "emit ev w = (Inr (), w\<lparr>trace := trace w @ [ev]\<rparr>)"

definition answer :: "env \<Rightarrow> site \<Rightarrow> unit io" where
  "answer env s = (case rejects env s of Some m \<Rightarrow> throw (Error m) | None \<Rightarrow> io_return ())"

subsection \<open>The messaging transport\<close>

definition visible :: "world \<Rightarrow> nat \<Rightarrow> bool" where
  "visible w i \<longleftrightarrow> i < length (chat w) \<and> chat w ! i \<noteq> Deleted"

definition reply :: "env \<Rightarrow> site \<Rightarrow> jsstring \<Rightarrow> nat io" where
  "reply env s text =
     io_bind (emit (Reply text)) (\<lambda>_.
     io_bind (answer env s) (\<lambda>_ w.
       (Inr (length (chat w)), w\<lparr>chat := chat w @ [TextMessage text]\<rparr>)))"

text \<open>The transport refuses to edit or delete a message that is not there.\<close>

definition editMessageText :: "env \<Rightarrow> site \<Rightarrow> nat \<Rightarrow> jsstring \<Rightarrow> unit io" where
  "editMessageText env s i text =
     io_bind (emit (EditMessageText i text)) (\<lambda>_.
     io_bind (answer env s) (\<lambda>_ w.
       if visible w i then (Inr (), w\<lparr>chat := (chat w)[i := TextMessage text]\<rparr>)
       else (Inl (Error (str ''400: Bad Request: message to edit not found'')), w)))"

definition deleteMessage :: "env \<Rightarrow> site \<Rightarrow> nat \<Rightarrow> unit io" where
  "deleteMessage env s i =
     io_bind (emit (DeleteMessage i)) (\<lambda>_.
     io_bind (answer env s) (\<lambda>_ w.
       if visible w i then (Inr (), w\<lparr>chat := (chat w)[i := Deleted]\<rparr>)
       else (Inl (Error (str ''400: Bad Request: message to delete not found'')), w)))"

definition sendVideo :: "env \<Rightarrow> site \<Rightarrow> source \<Rightarrow> jsstring \<Rightarrow> unit io" where
  "sendVideo env s src caption =
     io_bind (emit (SendVideo src caption)) (\<lambda>_.
     io_bind (answer env s) (\<lambda>_ w.
       (Inr (), w\<lparr>chat := chat w @ [VideoMessage src caption]\<rparr>)))"

text \<open>
  \<open>statusMsg.message_id\<close>: reading a property of \<open>undefined\<close> throws a TypeError.
\<close>

definition message_id :: "nat option \<Rightarrow> nat io" where
  "message_id statusMsg =
     (case statusMsg of
        None \<Rightarrow> throw (Error (str ''Cannot read properties of undefined (reading 'message_id')''))
      | Some i \<Rightarrow> io_return i)"

subsection \<open>The extraction library\<close>

definition getInfo_io :: "env \<Rightarrow> jsstring \<Rightarrow> jsstring option \<Rightarrow> videoDetails io" where
  "getInfo_io env url ua =
     io_bind (emit (GetInfo url ua)) (\<lambda>_.
       case getInfo env url of Inl m \<Rightarrow> throw (Error m) | Inr v \<Rightarrow> io_return v)"

text \<open>\<open>ytdl (url, options)\<close> returns the stream at once; its errors come while it is read.\<close>

definition ytdl :: "jsstring \<Rightarrow> options \<Rightarrow> source io" where
  "ytdl url opts = io_bind (emit (Ytdl url opts)) (\<lambda>_. io_return (Stream url opts))"

subsection \<open>The file system\<close>

definition existsSync :: "jsstring \<Rightarrow> bool io" where
  "existsSync path w = (Inr (path \<in> fst ` set (files w)), w)"

definition createWriteStream :: "jsstring \<Rightarrow> unit io" where
  "createWriteStream path = emit (CreateWriteStream path)"

definition put_file :: "jsstring \<Rightarrow> nat \<Rightarrow> world \<Rightarrow> world" where
  "put_file path n w = w\<lparr>files := (path, n) # filter (\<lambda>f. fst f \<noteq> path) (files w)\<rparr>"

text \<open>
  \<open>stream.pipe (write)\<close> and the promise that resolves on the file's \<open>finish\<close> and
  rejects on an \<open>error\<close> of the stream or of the file.
\<close>

definition pipe_finished :: "env \<Rightarrow> jsstring \<Rightarrow> unit io" where
  "pipe_finished env path w =
     (case piped env of
        Finished n \<Rightarrow> (Inr (), put_file path n w)
      | Broken m None \<Rightarrow> (Inl (Error m), w)
      | Broken m (Some n) \<Rightarrow> (Inl (Error m), put_file path n w))"

definition statSync :: "jsstring \<Rightarrow> nat io" where
  "statSync path w =
     (case map_of (files w) path of
        None \<Rightarrow> (Inl (Error (str ''ENOENT: no such file or directory, stat'')), w)
      | Some n \<Rightarrow> (Inr n, w))"

definition unlinkSync :: "jsstring \<Rightarrow> unit io" where
  "unlinkSync path =
     io_bind (emit (UnlinkSync path)) (\<lambda>_ w.
       if path \<in> fst ` set (files w)
       then (Inr (), w\<lparr>files := filter (\<lambda>f. fst f \<noteq> path) (files w)\<rparr>)
       else (Inl (Error (str ''ENOENT: no such file or directory, unlink'')), w))"

text \<open>\<open>path.join\<close> of a directory and a name that has no separator in it.\<close>

definition path_join :: "jsstring \<Rightarrow> jsstring \<Rightarrow> jsstring" where
  "path_join dir name = dir @ str ''/'' @ name"

definition tempDir :: "env \<Rightarrow> jsstring" where
  "tempDir env = path_join (dirname env) (str ''temp'')"


section \<open>The texts of the bot\<close>

text \<open>
  \<open>title.replace (/[^a-z0-9]/gi, '_')\<close>: without the \<open>u\<close> flag the class is matched
  code unit by code unit, and ignoring case never maps a code unit beyond ASCII to an
  ASCII one, so exactly the ASCII letters and digits are kept.
\<close>

definition isAlnum :: "jschar \<Rightarrow> bool" where
  "isAlnum c \<longleftrightarrow> (0x61 \<le> c \<and> c \<le> 0x7A) \<or> (0x41 \<le> c \<and> c \<le> 0x5A) \<or> (0x30 \<le> c \<and> c \<le> 0x39)"

definition sanitize :: "jsstring \<Rightarrow> jsstring" where
  "sanitize title = map (\<lambda>c. if isAlnum c then c else 0x5F) title"

text \<open>
  \<open>x.toFixed (1)\<close> for \<open>x \<ge> 0\<close>: the tenths nearest to \<open>x\<close>, the larger one on a tie.
  A file size below \<open>2 ^ 53\<close> bytes divided by \<open>1024 * 1024\<close> is an exact double, so
  \<open>sizeMB\<close> is the rational number itself.
\<close>

definition toFixed1 :: "rat \<Rightarrow> jsstring" where
  "toFixed1 x =
     (let n = nat \<lfloor>10 * x + 1 / 2\<rfloor> in decimal (n div 10) @ str ''.'' @ decimal (n mod 10))"

definition camera :: jsstring where "camera = [0xD83C, 0xDFA5]"
definition cross :: jsstring where "cross = [0x274C]"
definition hourglass :: jsstring where "hourglass = [0x23F3]"
definition down_arrow :: jsstring where "down_arrow = [0x2B07, 0xFE0F]"
definition stopwatch :: jsstring where "stopwatch = [0x23F1, 0xFE0F]"
definition sparkles :: jsstring where "sparkles = [0x2728]"
definition antenna :: jsstring where "antenna = [0xD83D, 0xDCE1]"
definition package :: jsstring where "package = [0xD83D, 0xDCE6]"
definition inbox :: jsstring where "inbox = [0xD83D, 0xDCE5]"
definition check_mark :: jsstring where "check_mark = [0x2705]"

definition fetching_text :: jsstring where
  "fetching_text = hourglass @ str '' Fetching video info...''"

definition downloading_text :: "jsstring \<Rightarrow> jsstring" where
  "downloading_text title = camera @ str '' '' @ title @ nl @ down_arrow @ str '' Downloading...''"

definition downloaded_text :: jsstring where
  "downloaded_text = check_mark @ str '' Downloaded & sent successfully!''"

subsection \<open>index.js\<close>

definition invalid_index :: jsstring where
  "invalid_index = cross @ str '' Invalid YouTube link''"

definition failed_index :: jsstring where
  "failed_index = cross @ str '' Failed to process video''"

definition caption_index :: "jsstring \<Rightarrow> jsnumber \<Rightarrow> jsstring" where
  "caption_index title duration =
     camera @ str '' '' @ title @ nl @ stopwatch @ str '' '' @ duration_text duration"

definition streamed_index :: jsstring where
  "streamed_index = sparkles @ str '' Streamed successfully!''"

definition too_large_index :: jsstring where
  "too_large_index = package @ str '' Video too large (max 48MB)''"

subsection \<open>The second file\<close>

definition invalid_part0 :: jsstring where
  "invalid_part0 = cross @ str '' Invalid YouTube link!'' @ nl @ nl @ str ''Send a valid YouTube URL.''"

definition preparing_part0 :: "jsstring \<Rightarrow> jsnumber \<Rightarrow> jsstring" where
  "preparing_part0 title duration =
     camera @ str '' '' @ title @ nl @ down_arrow @ str '' Preparing video... ('' @
     duration_text duration @ str '')''"

definition failed_part0 :: "error \<Rightarrow> jsstring" where
  "failed_part0 err =
     cross @ str '' Failed to process video:'' @ nl @ str ''`'' @ err_message err @ str ''`'' @
     nl @ nl @ str ''Try another link!''"

definition streaming_part0 :: "jsstring \<Rightarrow> jsstring" where
  "streaming_part0 title = camera @ str '' '' @ title @ nl @ antenna @ str '' Streaming...''"

definition caption_stream_part0 :: "jsstring \<Rightarrow> jsnumber \<Rightarrow> jsstring" where
  "caption_stream_part0 title duration =
     camera @ str '' '' @ title @ nl @ stopwatch @ str '' '' @ duration_text duration @
     nl @ sparkles @ str '' Streamed instantly!''"

definition streamed_part0 :: jsstring where
  "streamed_part0 = sparkles @ str '' Video streamed successfully!''"

definition too_large_part0 :: "rat \<Rightarrow> jsstring" where
  "too_large_part0 sizeMB =
     package @ str '' Video too large ('' @ toFixed1 sizeMB @ str ''MB)'' @ nl @ str ''Max: 48MB''"

definition caption_file_part0 :: "jsstring \<Rightarrow> jsnumber \<Rightarrow> rat \<Rightarrow> jsstring" where
  "caption_file_part0 title duration sizeMB =
     camera @ str '' '' @ title @ nl @ stopwatch @ str '' '' @ duration_text duration @
     nl @ inbox @ str '' '' @ toFixed1 sizeMB @ str ''MB''"

definition download_failed_part0 :: "error \<Rightarrow> jsstring" where
  "download_failed_part0 err =
     cross @ str '' Download failed:'' @ nl @ str ''`'' @ err_message err @ str ''`''"

definition agent_getInfo :: jsstring where
  "agent_getInfo = str ''Mozilla/5.0 (Windows NT 10.0; Win64; x64) AppleWebKit/537.36 (KHTML, like Gecko) Chrome/120.0.0.0 Safari/537.36''"

definition agent_ytdl :: jsstring where
  "agent_ytdl = str ''Mozilla/5.0 (Windows NT 10.0; Win64; x64) AppleWebKit/537.36''"

text \<open>The name of the temporary file, the same expression in both files.\<close>

definition filepath_of :: "env \<Rightarrow> jsstring \<Rightarrow> jsstring" where
  "filepath_of env title =
     path_join (tempDir env) (decimal (now env) @ str ''-'' @ sanitize title @ str ''.mp4'')"


section \<open>index.js\<close>

text \<open>
  \<open>downloadVideo\<close> (lines 96 to 133). Nothing in it catches an error: a rejection at
  any \<open>await\<close> leaves the function at once.
\<close>

definition downloadVideo_index ::
  "env \<Rightarrow> jsstring \<Rightarrow> jsstring \<Rightarrow> jsnumber \<Rightarrow> nat option \<Rightarrow> unit io" where
  "downloadVideo_index env url title duration statusMsg =
     io_bind (emit (Call_downloadVideo url title duration statusMsg)) (\<lambda>_.
     let filepath = filepath_of env title in
     io_bind (ytdl url \<lparr>container_mp4 = True, quality = [str ''highest''], userAgent = None\<rparr>) (\<lambda>stream.
     io_bind (createWriteStream filepath) (\<lambda>_.
     io_bind (pipe_finished env filepath) (\<lambda>_.
     io_bind (statSync filepath) (\<lambda>size.
     let sizeMB = (of_nat size :: rat) / (1024 * 1024) in
     if sizeMB > 48 then
       io_bind (unlinkSync filepath) (\<lambda>_.
       io_bind (message_id statusMsg) (\<lambda>i.
       editMessageText env Edit_too_large i too_large_index))
     else
       io_bind (sendVideo env Send_file (File filepath) (caption_index title duration)) (\<lambda>_.
       io_bind (unlinkSync filepath) (\<lambda>_.
       io_bind (message_id statusMsg) (\<lambda>i.
       io_bind (deleteMessage env Delete_downloaded i) (\<lambda>_.
       not_awaited (reply env Reply_downloaded downloaded_text))))))))))"

text \<open>\<open>streamVideo\<close> (lines 73 to 93).\<close>

definition streamVideo_index ::
  "env \<Rightarrow> jsstring \<Rightarrow> jsstring \<Rightarrow> jsnumber \<Rightarrow> nat option \<Rightarrow> unit io" where
  "streamVideo_index env url title duration statusMsg =
     io_bind (emit (Call_streamVideo url title duration statusMsg)) (\<lambda>_.
     try_catch
       (io_bind (ytdl url \<lparr>container_mp4 = False, quality = [str ''18''], userAgent = None\<rparr>) (\<lambda>stream.
        io_bind (sendVideo env Send_stream stream (caption_index title duration)) (\<lambda>_.
        io_bind (message_id statusMsg) (\<lambda>i.
        io_bind (deleteMessage env Delete_streamed i) (\<lambda>_.
        not_awaited (reply env Reply_streamed streamed_index))))))
       (\<lambda>err. downloadVideo_index env url title duration statusMsg))"

text \<open>The handler of a text message (lines 31 to 70); \<open>text\<close> is \<open>ctx.message.text\<close>.\<close>

definition on_text_index :: "env \<Rightarrow> jsstring \<Rightarrow> unit io" where
  "on_text_index env text =
     (let url = trim text in
      if \<not> validateURL env url then
        io_bind (reply env Reply_invalid invalid_index) (\<lambda>_. io_return ())
      else
        io_bind (reply env Reply_status fetching_text) (\<lambda>statusMsg.
        try_catch
          (io_bind (getInfo_io env url None) (\<lambda>v.
           let title = take 50 (details_title v);
               duration = Number_js (details_lengthSeconds v) in
           io_bind (editMessageText env Edit_info statusMsg (downloading_text title)) (\<lambda>_.
           if js_le duration (Num 120) then
             streamVideo_index env url title duration (Some statusMsg)
           else
             downloadVideo_index env url title duration (Some statusMsg))))
          (\<lambda>err. editMessageText env Edit_failed statusMsg failed_index)))"

section \<open>The second file\<close>

text \<open>
  \<open>downloadVideo\<close> (lines 123 to 197): the whole body is in a \<open>try\<close>, and the \<open>catch\<close>
  removes the file if it is there and writes the error into the status message.
\<close>

definition downloadVideo_part0 ::
  "env \<Rightarrow> jsstring \<Rightarrow> jsstring \<Rightarrow> jsnumber \<Rightarrow> nat option \<Rightarrow> unit io" where
  "downloadVideo_part0 env url title duration statusMsg =
     io_bind (emit (Call_downloadVideo url title duration statusMsg)) (\<lambda>_.
     let filepath = filepath_of env title in
     try_catch
       (io_bind (message_id statusMsg) (\<lambda>i.
        io_bind (editMessageText env Edit_downloading i (downloading_text title)) (\<lambda>_.
        io_bind (ytdl url \<lparr>container_mp4 = True,
             quality = [str ''highestvideo[height<=720]+bestaudio[ext=m4a]/best[ext=mp4]''],
             userAgent = Some agent_ytdl\<rparr>) (\<lambda>stream.
        io_bind (createWriteStream filepath) (\<lambda>_.
        io_bind (pipe_finished env filepath) (\<lambda>_.
        io_bind (statSync filepath) (\<lambda>size.
        let sizeMB = (of_nat size :: rat) / (1024 * 1024) in
        if sizeMB > 48 then
          io_bind (unlinkSync filepath) (\<lambda>_.
          io_bind (message_id statusMsg) (\<lambda>i.
          editMessageText env Edit_too_large i (too_large_part0 sizeMB)))
        else
          io_bind (sendVideo env Send_file (File filepath)
                     (caption_file_part0 title duration sizeMB)) (\<lambda>_.
          io_bind (unlinkSync filepath) (\<lambda>_.
          io_bind (message_id statusMsg) (\<lambda>i.
          io_bind (deleteMessage env Delete_downloaded i) (\<lambda>_.
          not_awaited (reply env Reply_downloaded downloaded_text))))))))))))
       (\<lambda>err.
        io_bind (existsSync filepath) (\<lambda>there.
        io_bind (if there then unlinkSync filepath else io_return ()) (\<lambda>_.
        io_bind (message_id statusMsg) (\<lambda>i.
        editMessageText env Edit_download_failed i (download_failed_part0 err))))))"

text \<open>
  \<open>streamVideo\<close> (lines 82 to 120). The \<open>catch\<close> deletes the status message and calls
  \<open>downloadVideo\<close> with four arguments, so that its \<open>statusMsg\<close> is \<open>undefined\<close>.
\<close>

definition streamVideo_part0 ::
  "env \<Rightarrow> jsstring \<Rightarrow> jsstring \<Rightarrow> jsnumber \<Rightarrow> nat option \<Rightarrow> unit io" where
  "streamVideo_part0 env url title duration statusMsg =
     io_bind (emit (Call_streamVideo url title duration statusMsg)) (\<lambda>_.
     try_catch
       (io_bind (message_id statusMsg) (\<lambda>i.
        io_bind (editMessageText env Edit_streaming i (streaming_part0 title)) (\<lambda>_.
        io_bind (ytdl url \<lparr>container_mp4 = False,
             quality = [str ''18'', str ''22'', str ''137+140''],
             userAgent = Some agent_ytdl\<rparr>) (\<lambda>stream.
        io_bind (sendVideo env Send_stream stream (caption_stream_part0 title duration)) (\<lambda>_.
        io_bind (message_id statusMsg) (\<lambda>i.
        io_bind (deleteMessage env Delete_streamed i) (\<lambda>_.
        not_awaited (reply env Reply_streamed streamed_part0))))))))
       (\<lambda>err.
        io_bind (message_id statusMsg) (\<lambda>i.
        io_bind (deleteMessage env Delete_fallback i) (\<lambda>_.
        downloadVideo_part0 env url title duration None))))"

text \<open>The handler of a text message (lines 31 to 79).\<close>

definition on_text_part0 :: "env \<Rightarrow> jsstring \<Rightarrow> unit io" where
  "on_text_part0 env text =
     (let url = trim text in
      if \<not> validateURL env url then
        io_bind (reply env Reply_invalid invalid_part0) (\<lambda>_. io_return ())
      else
        io_bind (reply env Reply_status fetching_text) (\<lambda>statusMsg.
        try_catch
          (io_bind (getInfo_io env url (Some agent_getInfo)) (\<lambda>v.
           let title = take 50 (details_title v);
               duration = Number_js (details_lengthSeconds v) in
           io_bind (editMessageText env Edit_info statusMsg (preparing_part0 title duration)) (\<lambda>_.
           if js_le duration (Num 120) then
             streamVideo_part0 env url title duration (Some statusMsg)
           else
             downloadVideo_part0 env url title duration (Some statusMsg))))
          (\<lambda>err. editMessageText env Edit_failed statusMsg (failed_part0 err))))"


section \<open>What a run shows\<close>

text \<open>The entries into the two delivery functions, in the order of the trace.\<close>

fun is_call :: "event \<Rightarrow> bool" where
  "is_call (Call_streamVideo url title duration statusMsg) = True"
| "is_call (Call_downloadVideo url title duration statusMsg) = True"
| "is_call ev = False"

fun is_stream_call :: "event \<Rightarrow> bool" where
  "is_stream_call (Call_streamVideo url title duration statusMsg) = True"
| "is_stream_call ev = False"

definition calls :: "world \<Rightarrow> event list" where
  "calls w = filter is_call (trace w)"

text \<open>The delivery function a request enters first: the path the handler chose.\<close>

definition first_call :: "world \<Rightarrow> event option" where
  "first_call w = (case calls w of [] \<Rightarrow> None | c # cs \<Rightarrow> Some c)"

text \<open>
  A computation only ever adds to the trace; \<open>emits P m\<close> says that whatever \<open>m\<close>
  adds satisfies \<open>P\<close>.
\<close>

definition emits :: "(event \<Rightarrow> bool) \<Rightarrow> 'a io \<Rightarrow> bool" where
  "emits P m \<longleftrightarrow> (\<forall>w. \<exists>evs. trace (snd (m w)) = trace w @ evs \<and> list_all P evs)"

text \<open>
  The world when the handler reaches its \<open>if\<close>: the status message is there, the
  metadata was fetched, and the status message was edited to \<open>text\<close>.
\<close>

definition informed :: "jsstring \<Rightarrow> jsstring option \<Rightarrow> jsstring \<Rightarrow> world" where
  "informed url ua text =
     \<lparr>chat = [TextMessage text], files = [],
      trace = [Reply fetching_text, GetInfo url ua, EditMessageText 0 text]\<rparr>"

text \<open>
  The same extraction service, answering with every title cut to its first 50 code
  units.
\<close>

definition truncated :: "env \<Rightarrow> env" where
  "truncated env =
     env\<lparr>getInfo := (\<lambda>url. case getInfo env url of
                 Inl m \<Rightarrow> Inl m
               | Inr v \<Rightarrow> Inr (v\<lparr>details_title := take 50 (details_title v)\<rparr>))\<rparr>"

text \<open>
  What the user may read in a request about a video whose title, cut to its first 50
  code units, is \<open>t\<close> and whose duration is \<open>d\<close>: the captions and the status texts that
  carry the title are written out code unit by code unit, the others are the texts of
  the bot that carry no title.
\<close>

fun shows_index :: "jsstring \<Rightarrow> jsnumber \<Rightarrow> event \<Rightarrow> bool" where
  "shows_index t d (SendVideo src caption) =
     (caption = camera @ str '' '' @ t @ nl @ stopwatch @ str '' '' @ duration_text d)"
| "shows_index t d (EditMessageText i x) =
     (x = camera @ str '' '' @ t @ nl @ down_arrow @ str '' Downloading...'' \<or>
      x = too_large_index \<or> x = failed_index)"
| "shows_index t d (Reply x) =
     (x = fetching_text \<or> x = streamed_index \<or> x = downloaded_text)"
| "shows_index t d ev = True"

fun shows_part0 :: "jsstring \<Rightarrow> jsnumber \<Rightarrow> event \<Rightarrow> bool" where
  "shows_part0 t d (SendVideo src caption) =
     (caption = camera @ str '' '' @ t @ nl @ stopwatch @ str '' '' @ duration_text d @
                nl @ sparkles @ str '' Streamed instantly!'' \<or>
      (\<exists>sizeMB. caption = camera @ str '' '' @ t @ nl @ stopwatch @ str '' '' @
                duration_text d @ nl @ inbox @ str '' '' @ toFixed1 sizeMB @ str ''MB''))"
| "shows_part0 t d (EditMessageText i x) =
     (x = camera @ str '' '' @ t @ nl @ down_arrow @ str '' Preparing video... ('' @
          duration_text d @ str '')'' \<or>
      x = camera @ str '' '' @ t @ nl @ antenna @ str '' Streaming...'' \<or>
      x = camera @ str '' '' @ t @ nl @ down_arrow @ str '' Downloading...'' \<or>
      (\<exists>sizeMB. x = too_large_part0 sizeMB) \<or>
      (\<exists>err. x = download_failed_part0 err) \<or>
      (\<exists>err. x = failed_part0 err))"
| "shows_part0 t d (Reply x) =
     (x = fetching_text \<or> x = streamed_part0 \<or> x = downloaded_text)"
| "shows_part0 t d ev = True"

text \<open>
  The format \<open>M:SS\<close> in the words of the specification: the minutes, a colon, and the
  seconds left over as exactly two digits.
\<close>

definition spec_M_SS :: "nat \<Rightarrow> jsstring" where
  "spec_M_SS d =
     decimal (d div 60) @ str '':'' @
     [of_nat (48 + (d mod 60) div 10), of_nat (48 + (d mod 60) mod 10)]"

subsection \<open>Example requests\<close>

text \<open>
  A service that knows one video: \<open>validateURL\<close> accepts the short links, the video
  has the given title and length, the transfer and the transport behave as given.
\<close>

definition example_env ::
  "jsstring \<Rightarrow> jsstring \<Rightarrow> transfer \<Rightarrow> (site \<Rightarrow> jsstring option) \<Rightarrow> env" where
  "example_env title seconds transferred rejected =
     \<lparr>validateURL = (\<lambda>url. take 17 url = str ''https://youtu.be/''),
      getInfo = (\<lambda>url. Inr \<lparr>details_title = title, details_lengthSeconds = seconds\<rparr>),
      now = 1700000000000, dirname = str ''/app'', piped = transferred, rejects = rejected\<rparr>"

definition watch_url :: jsstring where
  "watch_url = str ''https://youtu.be/dQw4w9WgXcQ''"

definition accepting :: "site \<Rightarrow> jsstring option" where
  "accepting s = None"

definition rejecting :: "site \<Rightarrow> jsstring \<Rightarrow> site \<Rightarrow> jsstring option" where
  "rejecting s m s' = (if s' = s then Some m else None)"


definition not_a_link :: jsstring where
  "not_a_link = str ''not-a-youtube-link''"

text \<open>A title of 60 code units.\<close>

definition long_title :: jsstring where
  "long_title = replicate 60 0x61"

text \<open>The uploads of a file, and the removals of a file, among the events.\<close>

fun is_upload :: "event \<Rightarrow> bool" where
  "is_upload (SendVideo (File path) caption) = True"
| "is_upload ev = False"

fun is_unlink :: "event \<Rightarrow> bool" where
  "is_unlink (UnlinkSync path) = True"
| "is_unlink ev = False"


subsection \<open>Assertions about the scratch directory\<close>

text \<open>
  \<open>hoare P m Q E\<close>: started in a world that satisfies \<open>P\<close>, the computation \<open>m\<close> ends
  in a world that satisfies \<open>Q\<close> when it returns and \<open>E\<close> when it throws.
\<close>

definition hoare ::
  "(world \<Rightarrow> bool) \<Rightarrow> 'a io \<Rightarrow> (world \<Rightarrow> bool) \<Rightarrow> (world \<Rightarrow> bool) \<Rightarrow> bool" where
  "hoare P m Q E \<longleftrightarrow>
     (\<forall>w. P w \<longrightarrow> (case m w of (Inl e, w') \<Rightarrow> E w' | (Inr x, w') \<Rightarrow> Q w'))"

definition only_file :: "jsstring \<Rightarrow> world \<Rightarrow> bool" where
  "only_file path w \<longleftrightarrow> list_all (\<lambda>f. fst f = path) (files w)"

text \<open>The removals so far, and the states of the scratch directory during a download.\<close>

definition unlinks :: "world \<Rightarrow> event list" where
  "unlinks w = filter is_unlink (trace w)"

definition fresh :: "world \<Rightarrow> bool" where
  "fresh w \<longleftrightarrow> files w = [] \<and> unlinks w = []"

definition holding :: "jsstring \<Rightarrow> world \<Rightarrow> bool" where
  "holding path w \<longleftrightarrow> only_file path w \<and> unlinks w = []"

definition settled :: "world \<Rightarrow> bool" where
  "settled w \<longleftrightarrow> files w = [] \<and> length (unlinks w) \<le> 1"

definition pending :: "jsstring \<Rightarrow> world \<Rightarrow> bool" where
  "pending path w \<longleftrightarrow> holding path w \<or> settled w"

text \<open>A computation that touches neither the files nor the count of removals.\<close>

definition quiet :: "'a io \<Rightarrow> bool" where
  "quiet m \<longleftrightarrow> (\<forall>w. files (snd (m w)) = files w \<and> unlinks (snd (m w)) = unlinks w)"

text \<open>
  The entries into the delivery functions that one request may make: none, one, or
  \<open>streamVideo\<close> followed by \<open>downloadVideo\<close>.
\<close>

fun bounded_calls :: "event list \<Rightarrow> bool" where
  "bounded_calls [] = True"
| "bounded_calls [c] = True"
| "bounded_calls [c, d] = (is_stream_call c \<and> \<not> is_stream_call d)"
| "bounded_calls (c # d # e # cs) = False"


section \<open>Numbers and their texts\<close>

lemma decimal_small: "n < 10 \<Longrightarrow> decimal n = [of_nat (48 + n)]"
  by (simp add: decimal.simps)

lemma decimal_two:
  "10 \<le> n \<Longrightarrow> n < 100 \<Longrightarrow> decimal n = [of_nat (48 + n div 10), of_nat (48 + n mod 10)]"
  by (subst decimal.simps) (simp add: decimal_small)

lemma digit_unat: "n < 10 \<Longrightarrow> unat (of_nat (48 + n) :: 16 word) - 48 = n"
  by (simp only: unat_of_nat) simp

lemma digits_value_snoc: "digits_value (ds @ [c]) = 10 * digits_value ds + (unat c - 48)"
  by (simp add: digits_value_def)

text \<open>\<open>decimal\<close> writes the number it is given: reading the digits back returns it.\<close>

lemma digits_value_decimal: "digits_value (decimal n) = n"
proof (induction n rule: decimal.induct)
  case (1 n)
  show ?case
  proof (cases "n < 10")
    case True
    then show ?thesis
      using digit_unat [of n] by (simp only: decimal_small) (simp add: digits_value_def del: of_nat_add)
  next
    case False
    have "n mod 10 < 10" by simp
    then have u: "unat (of_nat (48 + n mod 10) :: 16 word) - 48 = n mod 10" by (rule digit_unat)
    have "decimal n = decimal (n div 10) @ [of_nat (48 + n mod 10)]"
      using False by (subst decimal.simps) simp
    then show ?thesis using 1 [OF False] u by (simp only: digits_value_snoc) simp
  qed
qed

lemma js_rem_nonneg: "0 \<le> d \<Longrightarrow> js_rem (Num d) 60 = Num (d mod 60)"
  by (cases "d = 0") simp_all

lemma padStart_seconds:
  assumes "m < 60"
  shows "padStart 2 (str ''0'') (decimal m) = [of_nat (48 + m div 10), of_nat (48 + m mod 10)]"
proof (cases "m < 10")
  case True
  then show ?thesis by (simp add: padStart_def decimal_small str_def)
next
  case False
  with assms show ?thesis by (simp add: padStart_def decimal_two)
qed

subsection \<open>The quotient by 60\<close>

lemma round_half_even_of_int: "round_half_even (of_int m) = m"
  by (simp add: round_half_even_def)

lemma round_half_even_near: "\<bar>of_int (round_half_even x) - x\<bar> \<le> 1 / 2"
proof -
  define f where "f = \<lfloor>x\<rfloor>"
  define r where "r = x - of_int f"
  have r: "0 \<le> r" "r < 1" unfolding r_def f_def by linarith+
  have x: "x = of_int f + r" by (simp add: r_def)
  have c: "round_half_even x = f \<and> r \<le> 1 / 2 \<or> round_half_even x = f + 1 \<and> 1 / 2 \<le> r"
    unfolding round_half_even_def Let_def f_def [symmetric] r_def [symmetric] by auto
  then show ?thesis
  proof
    assume "round_half_even x = f \<and> r \<le> 1 / 2"
    with r show ?thesis by (simp add: x)
  next
    assume "round_half_even x = f + 1 \<and> 1 / 2 \<le> r"
    with r show ?thesis by (simp add: x)
  qed
qed

lemma binade_less:
  assumes "0 < x" and "x < 2 ^ n"
  shows "binade x < int n"
proof (cases "1 \<le> x")
  case True
  have "\<lfloor>x\<rfloor> < 2 ^ n"
    using assms(2) by (simp add: floor_less_iff)
  then have "nat \<lfloor>x\<rfloor> < 2 ^ n"
    using True by (simp add: nat_less_iff)
  moreover have "0 < n"
    using True assms(2) by (cases n) simp_all
  ultimately have "floorlog 2 (nat \<lfloor>x\<rfloor>) \<le> n"
    by (intro floorlog_leI) simp_all
  with True show ?thesis by (simp add: binade_def)
next
  case False
  have "0 < floorlog 2 (nat (\<lceil>1 / x\<rceil> - 1))"
  proof -
    from False assms(1) have "1 < 1 / x" by simp
    then have "2 \<le> \<lceil>1 / x\<rceil>" by linarith
    then have "0 < nat (\<lceil>1 / x\<rceil> - 1)" by simp
    then show ?thesis by (simp add: floorlog_def)
  qed
  with False show ?thesis by (simp add: binade_def)
qed

lemma scaled_near:
  fixes a x s :: rat
  assumes "\<bar>a - x * s\<bar> \<le> 1 / 2" and "32 \<le> s"
  shows "\<bar>a / s - x\<bar> \<le> 1 / 64"
proof -
  have s: "0 < s" using assms(2) by simp
  have "a / s - x = (a - x * s) / s"
    using s by (simp add: field_simps)
  then have "\<bar>a / s - x\<bar> = \<bar>a - x * s\<bar> / s"
    using s by simp
  also have "\<dots> \<le> (1 / 2) / s"
    by (rule divide_right_mono [OF assms(1)]) (use s in simp)
  also have "\<dots> \<le> (1 / 2) / 32"
    using assms(2) by (intro divide_left_mono) simp_all
  finally show ?thesis by simp
qed

text \<open>
  Below \<open>2 ^ 53\<close> the rounding of the quotient never reaches the next integer: the
  doubles around \<open>d / 60\<close> are at most \<open>1 / 32\<close> apart, every integer is one of them, and
  a quotient that is not an integer is at least \<open>1 / 60\<close> away from the integers.
\<close>

lemma floor_double_div_60:
  assumes "0 \<le> d" and "d < 2 ^ 53"
  shows "\<lfloor>double (of_int d / 60)\<rfloor> = d div 60"
proof (cases "d = 0")
  case True
  then show ?thesis by (simp add: double_def)
next
  case False
  define x :: rat where "x = of_int d / 60"
  define k where "k = d div 60"
  define r where "r = d mod 60"
  have d: "d = 60 * k + r" "0 \<le> r" "r < 60"
    by (simp_all add: k_def r_def)
  have x: "x = of_int k + of_int r / 60"
    unfolding x_def d(1) by simp
  have pos: "0 < x" using False assms(1) by (simp add: x_def)
  have "x < 2 ^ 48"
    using assms(2) by (simp add: x_def)
  from binade_less [OF pos this] have b: "binade x \<le> 47" by simp
  define j where "j = nat (52 - binade x)"
  have j: "5 \<le> j" using b by (simp add: j_def)
  have e: "binade x - 52 = - int j" using b by (simp add: j_def)
  have ulp: "(2::rat) powi (binade x - 52) = 1 / 2 ^ j"
    by (simp add: e power_int_minus_divide)
  define m where "m = round_half_even (x * 2 ^ j)"
  have dbl: "double x = of_int m / 2 ^ j"
    using pos by (simp add: double_def Let_def ulp m_def)
  have "(2::rat) ^ 5 \<le> 2 ^ j"
    using j by (intro power_increasing) simp_all
  then have p: "(32::rat) \<le> 2 ^ j" by simp
  show ?thesis
  proof (cases "r = 0")
    case True
    then have "x * 2 ^ j = of_int (k * 2 ^ j)" by (simp add: x)
    then have "m = k * 2 ^ j" by (simp only: m_def round_half_even_of_int)
    then have "double x = of_int k" by (simp add: dbl)
    then show ?thesis by (simp add: x_def k_def)
  next
    case False
    with d have "1 \<le> r" "r \<le> 59" by simp_all
    then have "(1::rat) \<le> of_int r" "of_int r \<le> (59::rat)"
      by simp_all
    then have rr: "(1::rat) / 60 \<le> of_int r / 60" "of_int r / 60 \<le> (59::rat) / 60"
      by simp_all
    have "\<bar>of_int m - x * 2 ^ j\<bar> \<le> 1 / 2"
      unfolding m_def by (rule round_half_even_near)
    from scaled_near [OF this p] have near: "\<bar>double x - x\<bar> \<le> 1 / 64"
      by (simp add: dbl)
    have "of_int k \<le> double x" "double x < of_int k + 1"
      using near rr unfolding x by linarith+
    then have "\<lfloor>double x\<rfloor> = k" by linarith
    then show ?thesis by (simp add: x_def k_def)
  qed
qed

lemma Math_floor_div_60:
  assumes "0 \<le> d" and "d < 2 ^ 53"
  shows "Math_floor_div (Num d) 60 = Num (d div 60)"
  using floor_double_div_60 [OF assms] by simp

text \<open>
  Above \<open>2 ^ 53\<close> it does. The duration 67553994410557496 is a double (a multiple of 8
  between \<open>2 ^ 55\<close> and \<open>2 ^ 56\<close>) and is 56 seconds more than \<open>2 ^ 50\<close> minutes; its
  quotient by 60 lies between two doubles that are \<open>1 / 4\<close> apart and is rounded up to
  \<open>2 ^ 50 + 1\<close>.
\<close>

lemma floorlog_2_50: "floorlog 2 1125899906842624 = 51"
proof -
  have "floorlog 2 (1 * 2 ^ 50) = floorlog 2 1 + 50"
    by (rule floorlog_power) simp_all
  then show ?thesis by (simp add: floorlog_def)
qed

lemma floor_double_div_60_rounded_up:
  "\<lfloor>double (of_int 67553994410557496 / of_int 60)\<rfloor> = 1125899906842625"
proof -
  define x :: rat where "x = 67553994410557496 / 60"
  have pos: "x \<noteq> 0" "\<bar>x\<bar> = x" "1 \<le> x" by (simp_all add: x_def)
  have "\<lfloor>x\<rfloor> = 1125899906842624"
    by (rule floor_unique) (simp_all add: x_def)
  then have b: "binade x = 50"
    using pos(3) by (simp add: binade_def floorlog_2_50)
  have u: "(2::rat) powi (50 - 52) = 1 / 4"
    by (simp add: power_int_minus_divide)
  have f: "\<lfloor>x / (1 / 4)\<rfloor> = 4503599627370499"
    by (rule floor_unique) (simp_all add: x_def)
  have r: "round_half_even (x / (1 / 4)) = 4503599627370500"
    unfolding round_half_even_def f Let_def by (simp add: x_def)
  have "double x = 1125899906842625"
    unfolding double_def Let_def pos(2) b u r using pos(1) by simp
  then show ?thesis by (simp add: x_def)
qed

lemma duration_text_nonneg:
  assumes "0 \<le> d" and "d < 2 ^ 53"
  shows "duration_text (Num d) = spec_M_SS (nat d)"
proof -
  have m: "nat (d mod 60) < 60" by simp
  have q: "\<not> d div 60 < 0" using assms(1) by (simp add: pos_imp_zdiv_neg_iff)
  have r: "\<not> d mod 60 < 0" by simp
  have n: "nat d div 60 = nat (d div 60)" "nat d mod 60 = nat (d mod 60)"
    using assms(1) by (simp_all add: nat_div_distrib nat_mod_distrib)
  show ?thesis
    unfolding duration_text_def js_rem_nonneg [OF assms(1)] Math_floor_div_60 [OF assms]
      String_js_def spec_M_SS_def n
    using q r padStart_seconds [OF m] by simp
qed

lemma duration_text_NaN: "duration_text NaN = str ''NaN:NaN''"
  by (simp add: duration_text_def String_js_def padStart_def str_def)

lemma spec_M_SS_125: "spec_M_SS 125 = str ''2:05''"
  by (simp add: spec_M_SS_def decimal_small str_def)

lemma duration_text_rounded_up:
  "duration_text (Num 67553994410557496) = str ''1125899906842625:56''"
  unfolding duration_text_def Math_floor_div.simps floor_double_div_60_rounded_up
  by (simp add: String_js_def padStart_def decimal.simps str_def)

lemma spec_M_SS_exact:
  "spec_M_SS 67553994410557496 = str ''1125899906842624:56''"
  by (simp add: spec_M_SS_def decimal.simps str_def)

text \<open>
  C8. For a duration of \<open>d\<close> whole seconds with \<open>0 \<le> d < 2 ^ 53\<close>, the duration printed
  in the caption of the streamed video and of the uploaded file, in both files, and in
  the second file's status text, is the minutes \<open>d div 60\<close>, a colon, and the seconds
  \<open>d mod 60\<close> as exactly two digits.
\<close>

theorem caption_duration_M_SS:
  assumes "0 \<le> d" and "d < 2 ^ 53"
  shows "caption_index title (Num d) =
           camera @ str '' '' @ title @ nl @ stopwatch @ str '' '' @ spec_M_SS (nat d)
       \<and> caption_stream_part0 title (Num d) =
           camera @ str '' '' @ title @ nl @ stopwatch @ str '' '' @ spec_M_SS (nat d) @
           nl @ sparkles @ str '' Streamed instantly!''
       \<and> caption_file_part0 title (Num d) sizeMB =
           camera @ str '' '' @ title @ nl @ stopwatch @ str '' '' @ spec_M_SS (nat d) @
           nl @ inbox @ str '' '' @ toFixed1 sizeMB @ str ''MB''
       \<and> preparing_part0 title (Num d) =
           camera @ str '' '' @ title @ nl @ down_arrow @ str '' Preparing video... ('' @
           spec_M_SS (nat d) @ str '')''"
  by (simp add: caption_index_def caption_stream_part0_def caption_file_part0_def
      preparing_part0_def duration_text_nonneg [OF assms])

theorem caption_duration_M_SS_witness:
  "(0::int) \<le> 125 \<and> (125::int) < 2 ^ 53
   \<and> caption_index (str ''clip'') (Num 125) =
       camera @ str '' clip'' @ nl @ stopwatch @ str '' 2:05''
   \<and> caption_stream_part0 (str ''clip'') (Num 125) =
       camera @ str '' clip'' @ nl @ stopwatch @ str '' 2:05'' @ nl @ sparkles @
       str '' Streamed instantly!''"
proof -
  have h: "(0::int) \<le> 125" "(125::int) < 2 ^ 53" by simp_all
  have n: "nat 125 = 125" by simp
  show ?thesis
    using caption_duration_M_SS [OF h, of "str ''clip''"]
    by (simp add: n spec_M_SS_125) (simp add: str_def)
qed

text \<open>
  C8 as it is written, for every duration \<open>d \<ge> 0\<close>, fails at the duration
  67553994410557496: \<open>Math.floor (d / 60)\<close> is 1125899906842625 there, one more than the
  whole minutes of \<open>d\<close>, and the captions print \<open>1125899906842625:56\<close> where the format
  asks for \<open>1125899906842624:56\<close>.
\<close>

theorem caption_duration_above_2_53:
  "(0::int) \<le> 67553994410557496
   \<and> caption_index (str ''clip'') (Num 67553994410557496) =
       camera @ str '' clip'' @ nl @ stopwatch @ str '' 1125899906842625:56''
   \<and> camera @ str '' '' @ str ''clip'' @ nl @ stopwatch @ str '' '' @
       spec_M_SS (nat 67553994410557496) =
       camera @ str '' clip'' @ nl @ stopwatch @ str '' 1125899906842624:56''
   \<and> caption_index (str ''clip'') (Num 67553994410557496) \<noteq>
       camera @ str '' '' @ str ''clip'' @ nl @ stopwatch @ str '' '' @
       spec_M_SS (nat 67553994410557496)"
proof -
  have n: "nat 67553994410557496 = 67553994410557496" by simp
  show ?thesis
    unfolding caption_index_def duration_text_rounded_up n spec_M_SS_exact
    by (simp add: str_def)
qed


section \<open>How the trace grows\<close>

lemma emitsI: "(\<And>w. \<exists>evs. trace (snd (m w)) = trace w @ evs \<and> list_all P evs) \<Longrightarrow> emits P m"
  by (simp add: emits_def)

lemma emits_return: "emits P (io_return x)"
  by (simp add: emits_def io_return_def)

lemma emits_throw: "emits P (throw e)"
  by (simp add: emits_def throw_def)

lemma emits_emit: "P ev \<Longrightarrow> emits P (emit ev)"
  by (simp add: emits_def emit_def)

lemma emits_bind:
  assumes "emits P m" and "\<And>x. emits P (f x)"
  shows "emits P (io_bind m f)"
proof (rule emitsI)
  fix w
  obtain r w1 where mw: "m w = (r, w1)" by (cases "m w")
  from assms(1) obtain e1 where e1: "trace w1 = trace w @ e1" "list_all P e1"
    using mw unfolding emits_def by (metis snd_conv)
  show "\<exists>evs. trace (snd (io_bind m f w)) = trace w @ evs \<and> list_all P evs"
  proof (cases r)
    case (Inl e)
    then show ?thesis using mw e1 by (simp add: io_bind_def)
  next
    case (Inr x)
    from assms(2) [of x] obtain e2 where "trace (snd (f x w1)) = trace w1 @ e2" "list_all P e2"
      unfolding emits_def by blast
    then show ?thesis using Inr mw e1 by (simp add: io_bind_def)
  qed
qed

lemma emits_catch:
  assumes "emits P m" and "\<And>e. emits P (h e)"
  shows "emits P (try_catch m h)"
proof (rule emitsI)
  fix w
  obtain r w1 where mw: "m w = (r, w1)" by (cases "m w")
  from assms(1) obtain e1 where e1: "trace w1 = trace w @ e1" "list_all P e1"
    using mw unfolding emits_def by (metis snd_conv)
  show "\<exists>evs. trace (snd (try_catch m h w)) = trace w @ evs \<and> list_all P evs"
  proof (cases r)
    case (Inr x)
    then show ?thesis using mw e1 by (simp add: try_catch_def)
  next
    case (Inl e)
    from assms(2) [of e] obtain e2 where "trace (snd (h e w1)) = trace w1 @ e2" "list_all P e2"
      unfolding emits_def by blast
    then show ?thesis using Inl mw e1 by (simp add: try_catch_def)
  qed
qed

lemma emits_not_awaited: "emits P m \<Longrightarrow> emits P (not_awaited m)"
  by (simp add: emits_def not_awaited_def)

lemma emits_if: "emits P a \<Longrightarrow> emits P b \<Longrightarrow> emits P (if c then a else b)"
  by simp

lemma emits_answer: "emits P (answer env s)"
  by (simp add: answer_def emits_return emits_throw split: option.split)

lemma emits_state: "(\<And>w. trace (snd (f w)) = trace w) \<Longrightarrow> emits P f"
  by (simp add: emits_def)

lemma emits_reply: "P (Reply text) \<Longrightarrow> emits P (reply env s text)"
  unfolding reply_def
  by (intro emits_bind emits_emit emits_answer emits_state) simp_all

lemma emits_editMessageText: "P (EditMessageText i text) \<Longrightarrow> emits P (editMessageText env s i text)"
  unfolding editMessageText_def
  by (intro emits_bind emits_emit emits_answer emits_state) simp_all

lemma emits_deleteMessage: "P (DeleteMessage i) \<Longrightarrow> emits P (deleteMessage env s i)"
  unfolding deleteMessage_def
  by (intro emits_bind emits_emit emits_answer emits_state) simp_all

lemma emits_sendVideo: "P (SendVideo src caption) \<Longrightarrow> emits P (sendVideo env s src caption)"
  unfolding sendVideo_def
  by (intro emits_bind emits_emit emits_answer emits_state) simp_all

lemma emits_message_id: "emits P (message_id statusMsg)"
  by (simp add: message_id_def emits_return emits_throw split: option.split)

lemma emits_ytdl: "P (Ytdl url opts) \<Longrightarrow> emits P (ytdl url opts)"
  unfolding ytdl_def by (intro emits_bind emits_emit emits_return) simp_all

lemma emits_createWriteStream: "P (CreateWriteStream path) \<Longrightarrow> emits P (createWriteStream path)"
  by (simp add: createWriteStream_def emits_emit)

lemma emits_pipe_finished: "emits P (pipe_finished env path)"
  by (rule emits_state) (simp add: pipe_finished_def put_file_def split: transfer.split option.split)

lemma emits_statSync: "emits P (statSync path)"
  by (rule emits_state) (simp add: statSync_def split: option.split)

lemma emits_existsSync: "emits P (existsSync path)"
  by (rule emits_state) (simp add: existsSync_def)

lemma emits_unlinkSync: "P (UnlinkSync path) \<Longrightarrow> emits P (unlinkSync path)"
  unfolding unlinkSync_def
  by (intro emits_bind emits_emit emits_state) simp_all

lemmas emits_intros =
  emits_bind emits_catch emits_not_awaited emits_if emits_return emits_throw emits_emit
  emits_reply emits_editMessageText emits_deleteMessage emits_sendVideo emits_message_id
  emits_ytdl emits_createWriteStream emits_pipe_finished emits_statSync emits_existsSync
  emits_unlinkSync

lemma downloadVideo_index_no_stream_call:
  "emits (\<lambda>ev. \<not> is_stream_call ev) (downloadVideo_index env url title duration statusMsg)"
  unfolding downloadVideo_index_def Let_def
  by (intro emits_intros) simp_all

lemma downloadVideo_part0_no_stream_call:
  "emits (\<lambda>ev. \<not> is_stream_call ev) (downloadVideo_part0 env url title duration statusMsg)"
  unfolding downloadVideo_part0_def Let_def
  by (intro emits_intros) simp_all

lemma streamVideo_index_emits: "emits (\<lambda>ev. True) (streamVideo_index env url title duration statusMsg)"
  unfolding streamVideo_index_def downloadVideo_index_def Let_def
  by (intro emits_intros) simp_all


lemma emitsD: "emits P m \<Longrightarrow> \<exists>evs. trace (snd (m w)) = trace w @ evs \<and> list_all P evs"
  by (simp add: emits_def)

lemma downloadVideo_index_emits:
  "emits (\<lambda>ev. True) (downloadVideo_index env url title duration statusMsg)"
  unfolding downloadVideo_index_def Let_def
  by (intro emits_intros) simp_all

lemma downloadVideo_part0_emits:
  "emits (\<lambda>ev. True) (downloadVideo_part0 env url title duration statusMsg)"
  unfolding downloadVideo_part0_def Let_def
  by (intro emits_intros) simp_all

lemma io_bind_emit: "io_bind (emit ev) f w = f () (w\<lparr>trace := trace w @ [ev]\<rparr>)"
  by (simp add: io_bind_def emit_def)

lemma try_catch_bind_emit:
  "try_catch (io_bind (emit ev) f) h w = try_catch (f ()) h (w\<lparr>trace := trace w @ [ev]\<rparr>)"
  by (simp add: try_catch_def io_bind_emit)

lemma first_call_after:
  assumes "calls w = []" and "is_call c"
    and "\<And>x. emits (\<lambda>ev. True) (f x)" and "\<And>e. emits (\<lambda>ev. True) (h e)"
  shows "first_call (snd (try_catch (io_bind (emit c) f) h w)) = Some c"
proof -
  have "emits (\<lambda>ev. True) (try_catch (f ()) h)"
    using assms(3,4) by (intro emits_catch)
  from emitsD [OF this, of "w\<lparr>trace := trace w @ [c]\<rparr>"] obtain evs where
    "trace (snd (try_catch (f ()) h (w\<lparr>trace := trace w @ [c]\<rparr>))) = (trace w @ [c]) @ evs"
    by auto
  then show ?thesis
    using assms(1,2) by (simp add: try_catch_bind_emit calls_def first_call_def)
qed

lemma no_stream_call_after:
  assumes "filter is_stream_call (trace w) = []" and "emits (\<lambda>ev. \<not> is_stream_call ev) m"
  shows "filter is_stream_call (trace (snd (m w))) = []"
proof -
  from emitsD [OF assms(2), of w] obtain evs where
    "trace (snd (m w)) = trace w @ evs" "list_all (\<lambda>ev. \<not> is_stream_call ev) evs"
    by auto
  then show ?thesis using assms(1) by (simp add: list_all_iff filter_empty_conv)
qed

lemma first_call_streamVideo_index:
  assumes "calls w = []" and "\<And>e. emits (\<lambda>ev. True) (h e)"
  shows "first_call (snd (try_catch (streamVideo_index env url title duration statusMsg) h w))
         = Some (Call_streamVideo url title duration statusMsg)"
  unfolding streamVideo_index_def
  by (rule first_call_after [OF assms(1)], simp,
      (intro emits_intros downloadVideo_index_emits, simp_all)[1], rule assms(2))

lemma first_call_downloadVideo_index:
  assumes "calls w = []" and "\<And>e. emits (\<lambda>ev. True) (h e)"
  shows "first_call (snd (try_catch (downloadVideo_index env url title duration statusMsg) h w))
         = Some (Call_downloadVideo url title duration statusMsg)"
  unfolding downloadVideo_index_def
  by (rule first_call_after [OF assms(1)], simp, unfold Let_def,
      (intro emits_intros, simp_all)[1], rule assms(2))

lemma first_call_streamVideo_part0:
  assumes "calls w = []" and "\<And>e. emits (\<lambda>ev. True) (h e)"
  shows "first_call (snd (try_catch (streamVideo_part0 env url title duration statusMsg) h w))
         = Some (Call_streamVideo url title duration statusMsg)"
  unfolding streamVideo_part0_def
  by (rule first_call_after [OF assms(1)], simp,
      (intro emits_intros downloadVideo_part0_emits, simp_all)[1], rule assms(2))

lemma first_call_downloadVideo_part0:
  assumes "calls w = []" and "\<And>e. emits (\<lambda>ev. True) (h e)"
  shows "first_call (snd (try_catch (downloadVideo_part0 env url title duration statusMsg) h w))
         = Some (Call_downloadVideo url title duration statusMsg)"
  unfolding downloadVideo_part0_def
  by (rule first_call_after [OF assms(1)], simp, unfold Let_def,
      (intro emits_intros, simp_all)[1], rule assms(2))

section \<open>The handler up to its choice\<close>

lemmas io_defs =
  io_bind_def try_catch_def emit_def answer_def io_return_def throw_def not_awaited_def

lemma on_text_index_selects:
  assumes "validateURL env (trim text)" and "rejects env Reply_status = None"
    and "getInfo env (trim text) = Inr v" and "rejects env Edit_info = None"
  shows "on_text_index env text init =
     try_catch
       (if js_le (Number_js (details_lengthSeconds v)) (Num 120)
        then streamVideo_index env (trim text) (take 50 (details_title v))
               (Number_js (details_lengthSeconds v)) (Some 0)
        else downloadVideo_index env (trim text) (take 50 (details_title v))
               (Number_js (details_lengthSeconds v)) (Some 0))
       (\<lambda>err. editMessageText env Edit_failed 0 failed_index)
       (informed (trim text) None (downloading_text (take 50 (details_title v))))"
  using assms
  by (simp add: on_text_index_def Let_def reply_def getInfo_io_def editMessageText_def
      io_defs init_def informed_def visible_def)

lemma on_text_part0_selects:
  assumes "validateURL env (trim text)" and "rejects env Reply_status = None"
    and "getInfo env (trim text) = Inr v" and "rejects env Edit_info = None"
  shows "on_text_part0 env text init =
     try_catch
       (if js_le (Number_js (details_lengthSeconds v)) (Num 120)
        then streamVideo_part0 env (trim text) (take 50 (details_title v))
               (Number_js (details_lengthSeconds v)) (Some 0)
        else downloadVideo_part0 env (trim text) (take 50 (details_title v))
               (Number_js (details_lengthSeconds v)) (Some 0))
       (\<lambda>err. editMessageText env Edit_failed 0 (failed_part0 err))
       (informed (trim text) (Some agent_getInfo)
          (preparing_part0 (take 50 (details_title v)) (Number_js (details_lengthSeconds v))))"
  using assms
  by (simp add: on_text_part0_def Let_def reply_def getInfo_io_def editMessageText_def
      io_defs init_def informed_def visible_def)

lemma calls_informed: "calls (informed url ua text) = []"
  by (simp add: calls_def informed_def)

lemma stream_calls_informed: "filter is_stream_call (trace (informed url ua text)) = []"
  by (simp add: informed_def)

lemma emits_edit_failed: "emits (\<lambda>ev. True) (editMessageText env s i text)"
  by (rule emits_editMessageText) simp

subsection \<open>The example requests\<close>

lemma trim_watch_url: "trim watch_url = watch_url"
  by (simp add: trim_def watch_url_def str_def isStrWhiteSpace_def)

lemma valid_watch_url: "validateURL (example_env title seconds transferred rejected) watch_url"
  by (simp add: example_env_def watch_url_def str_def)

lemma example_env_simps:
  "getInfo (example_env title seconds transferred rejected) url =
     Inr \<lparr>details_title = title, details_lengthSeconds = seconds\<rparr>"
  "rejects (example_env title seconds transferred rejected) = rejected"
  "piped (example_env title seconds transferred rejected) = transferred"
  by (simp_all add: example_env_def)

lemma Number_js_examples:
  "Number_js (str ''120'') = Num 120" "Number_js (str ''121'') = Num 121"
  "Number_js (str ''60'') = Num 60" "Number_js (str ''300'') = Num 300"
  "Number_js (str ''LIVE'') = NaN"
  by (simp_all add: Number_js_def trim_def str_def isStrWhiteSpace_def unsigned_js_def
      isDigit_def digits_value_def)

lemma take_50_clip: "take 50 (str ''clip'') = str ''clip''"
  by (simp add: str_def)

text \<open>
  C2. When the handler gets as far as its choice (the link is valid, the status message
  was sent, the metadata came and the status message was edited), and the duration is
  the integer \<open>d \<ge> 0\<close>, the delivery function it enters first is \<open>streamVideo\<close> when
  \<open>d \<le> 120\<close> and \<open>downloadVideo\<close> otherwise, in both files.
\<close>

theorem selector_threshold:
  assumes "validateURL env (trim text)" and "rejects env Reply_status = None"
    and "getInfo env (trim text) = Inr v" and "rejects env Edit_info = None"
    and "Number_js (details_lengthSeconds v) = Num d" and "0 \<le> d"
  shows "first_call (snd (on_text_index env text init)) =
           Some (if d \<le> 120
            then Call_streamVideo (trim text) (take 50 (details_title v)) (Num d) (Some 0)
            else Call_downloadVideo (trim text) (take 50 (details_title v)) (Num d) (Some 0))
       \<and> first_call (snd (on_text_part0 env text init)) =
           Some (if d \<le> 120
            then Call_streamVideo (trim text) (take 50 (details_title v)) (Num d) (Some 0)
            else Call_downloadVideo (trim text) (take 50 (details_title v)) (Num d) (Some 0))"
  unfolding on_text_index_selects [OF assms(1-4)] on_text_part0_selects [OF assms(1-4)] assms(5)
  by (simp add: first_call_streamVideo_index first_call_downloadVideo_index
      first_call_streamVideo_part0 first_call_downloadVideo_part0 calls_informed
      emits_edit_failed)

theorem selector_threshold_witness:
  "first_call (snd (on_text_index
       (example_env (str ''clip'') (str ''120'') (Finished 1000000) accepting) watch_url init)) =
     Some (Call_streamVideo watch_url (str ''clip'') (Num 120) (Some 0))
   \<and> first_call (snd (on_text_part0
       (example_env (str ''clip'') (str ''121'') (Finished 1000000) accepting) watch_url init)) =
     Some (Call_downloadVideo watch_url (str ''clip'') (Num 121) (Some 0))"
proof -
  have a: "validateURL (example_env t s (Finished 1000000) accepting) (trim watch_url)" for t s
    by (simp add: trim_watch_url valid_watch_url)
  have b: "rejects (example_env t s (Finished 1000000) accepting) Reply_status = None"
          "rejects (example_env t s (Finished 1000000) accepting) Edit_info = None" for t s
    by (simp_all add: example_env_simps accepting_def)
  have c: "getInfo (example_env t s (Finished 1000000) accepting) (trim watch_url) =
             Inr \<lparr>details_title = t, details_lengthSeconds = s\<rparr>" for t s
    by (simp add: example_env_simps)
  have d: "Number_js (details_lengthSeconds \<lparr>details_title = str ''clip'', details_lengthSeconds = str ''120''\<rparr>) = Num 120"
          "Number_js (details_lengthSeconds \<lparr>details_title = str ''clip'', details_lengthSeconds = str ''121''\<rparr>) = Num 121"
    by (simp_all add: Number_js_examples)
  show ?thesis
    using selector_threshold [OF a b(1) c b(2) d(1)] selector_threshold [OF a b(1) c b(2) d(2)]
    by (simp add: trim_watch_url take_50_clip)
qed


text \<open>A string with no numeric reading converts to \<open>NaN\<close>.\<close>

lemma digit_not_e: "isDigit c \<Longrightarrow> c \<noteq> 0x65 \<and> c \<noteq> 0x45"
  by (auto simp: isDigit_def)

lemma digits_unsigned_literal:
  assumes "ds \<noteq> []" and "list_all isDigit ds"
  shows "StrUnsignedDecimalLiteral ds"
proof -
  have "\<forall>c\<in>set ds. c \<noteq> 0x65 \<and> c \<noteq> 0x45"
    using assms(2) digit_not_e by (auto simp: list_all_iff)
  then have m: "takeWhile (\<lambda>c. c \<noteq> 0x65 \<and> c \<noteq> 0x45) ds = ds"
    "dropWhile (\<lambda>c. c \<noteq> 0x65 \<and> c \<noteq> 0x45) ds = []"
    by simp_all
  have d: "takeWhile isDigit ds = ds" "dropWhile isDigit ds = []"
    using assms(2) by (simp_all add: list_all_iff)
  have "mantissa ds"
    unfolding mantissa_def d using assms(1) by simp
  then show ?thesis
    unfolding StrUnsignedDecimalLiteral_def m by simp
qed

lemma unsigned_js_Num: "unsigned_js ds = Num i \<Longrightarrow> ds \<noteq> [] \<and> list_all isDigit ds"
  by (simp add: unsigned_js_def split: if_splits)

lemma not_numeric_NaN:
  assumes "not_numeric s"
  shows "Number_js s = NaN"
proof (cases "Number_js s")
  case NaN
  then show ?thesis .
next
  case (Num i)
  from assms obtain c cs where t: "trim s = c # cs"
    by (cases "trim s") (simp_all add: not_numeric_def)
  have "StrDecimalLiteral (c # cs)"
  proof (cases "c = 0x2B \<or> c = 0x2D")
    case True
    with Num t have "\<exists>j. unsigned_js cs = Num j"
      by (auto simp: Number_js_def split: jsnumber.splits)
    then obtain j where "unsigned_js cs = Num j" ..
    from unsigned_js_Num [OF this] digits_unsigned_literal have "StrUnsignedDecimalLiteral cs"
      by simp
    with True show ?thesis by (simp add: StrDecimalLiteral_def)
  next
    case False
    with Num t have "unsigned_js (c # cs) = Num i"
      by (simp add: Number_js_def)
    from unsigned_js_Num [OF this] digits_unsigned_literal [of "c # cs"]
    have "StrUnsignedDecimalLiteral (c # cs)" by simp
    with False show ?thesis by (simp add: StrDecimalLiteral_def)
  qed
  with assms t show ?thesis by (simp add: not_numeric_def)
qed

lemma not_numeric_examples:
  "not_numeric (str ''LIVE'')" "not_numeric (str ''12:30'')" "not_numeric (str ''1e'')"
  "not_numeric (str ''.'')" "not_numeric (str ''0x'')" "not_numeric (str ''+-1'')"
  "\<not> not_numeric (str ''212'')" "\<not> not_numeric (str '' 12.5 '')" "\<not> not_numeric (str ''1e3'')"
  "\<not> not_numeric (str ''-Infinity'')" "\<not> not_numeric (str ''0x1F'')" "\<not> not_numeric (str '''')"
  by (simp_all add: not_numeric_def trim_def str_def isStrWhiteSpace_def StrDecimalLiteral_def
      StrUnsignedDecimalLiteral_def mantissa_def exponent_def isDigit_def isHexDigit_def
      NonDecimalIntegerLiteral_def)

text \<open>
  C10. When \<open>lengthSeconds\<close> has no numeric reading, the duration is \<open>NaN\<close>, the
  comparison with 120 is false, and a handler that gets as far as its choice enters
  \<open>downloadVideo\<close> (with the duration \<open>NaN\<close>) and never \<open>streamVideo\<close>, in both files.
\<close>

theorem nan_duration_downloads:
  assumes "validateURL env (trim text)" and "rejects env Reply_status = None"
    and "getInfo env (trim text) = Inr v" and "rejects env Edit_info = None"
    and "not_numeric (details_lengthSeconds v)"
  shows "Number_js (details_lengthSeconds v) = NaN
       \<and> \<not> js_le (Number_js (details_lengthSeconds v)) (Num 120)
       \<and> first_call (snd (on_text_index env text init)) =
           Some (Call_downloadVideo (trim text) (take 50 (details_title v)) NaN (Some 0))
       \<and> filter is_stream_call (trace (snd (on_text_index env text init))) = []
       \<and> first_call (snd (on_text_part0 env text init)) =
           Some (Call_downloadVideo (trim text) (take 50 (details_title v)) NaN (Some 0))
       \<and> filter is_stream_call (trace (snd (on_text_part0 env text init))) = []"
proof -
  have n: "Number_js (details_lengthSeconds v) = NaN"
    using assms(5) by (rule not_numeric_NaN)
  have i: "emits (\<lambda>ev. \<not> is_stream_call ev)
      (try_catch (downloadVideo_index env url title duration statusMsg)
         (\<lambda>err. editMessageText env Edit_failed 0 failed_index))" for url title duration statusMsg
    by (intro emits_catch downloadVideo_index_no_stream_call emits_editMessageText) simp
  have p: "emits (\<lambda>ev. \<not> is_stream_call ev)
      (try_catch (downloadVideo_part0 env url title duration statusMsg)
         (\<lambda>err. editMessageText env Edit_failed 0 (failed_part0 err)))" for url title duration statusMsg
    by (intro emits_catch downloadVideo_part0_no_stream_call emits_editMessageText) simp
  show ?thesis
    unfolding on_text_index_selects [OF assms(1-4)] on_text_part0_selects [OF assms(1-4)] n
    by (simp add: first_call_downloadVideo_index first_call_downloadVideo_part0 calls_informed
        emits_edit_failed no_stream_call_after [OF stream_calls_informed i]
        no_stream_call_after [OF stream_calls_informed p])
qed

theorem nan_duration_downloads_witness:
  "not_numeric (str ''LIVE'')
   \<and> Number_js (str ''LIVE'') = NaN
   \<and> first_call (snd (on_text_index
       (example_env (str ''clip'') (str ''LIVE'') (Finished 1000000) accepting) watch_url init)) =
     Some (Call_downloadVideo watch_url (str ''clip'') NaN (Some 0))
   \<and> first_call (snd (on_text_part0
       (example_env (str ''clip'') (str ''LIVE'') (Finished 1000000) accepting) watch_url init)) =
     Some (Call_downloadVideo watch_url (str ''clip'') NaN (Some 0))"
proof -
  let ?env = "example_env (str ''clip'') (str ''LIVE'') (Finished 1000000) accepting"
  have a: "validateURL ?env (trim watch_url)"
    by (simp add: trim_watch_url valid_watch_url)
  have b: "rejects ?env Reply_status = None" "rejects ?env Edit_info = None"
    by (simp_all add: example_env_simps accepting_def)
  have c: "getInfo ?env (trim watch_url) =
             Inr \<lparr>details_title = str ''clip'', details_lengthSeconds = str ''LIVE''\<rparr>"
    by (simp add: example_env_simps)
  have d: "not_numeric (details_lengthSeconds \<lparr>details_title = str ''clip'', details_lengthSeconds = str ''LIVE''\<rparr>)"
    by (simp add: not_numeric_examples)
  show ?thesis
    using nan_duration_downloads [OF a b(1) c b(2) d]
    by (simp add: trim_watch_url take_50_clip not_numeric_examples)
qed

text \<open>
  C6. A text that \<open>validateURL\<close> refuses is answered with the invalid-link message and
  nothing else happens: the one call of the whole request is that reply, so the
  metadata is never asked for. This holds in both files.
\<close>

theorem invalid_link_no_lookup:
  assumes "\<not> validateURL env (trim text)"
  shows "on_text_index env text init =
           (case rejects env Reply_invalid of
              None \<Rightarrow> (Inr (), \<lparr>chat = [TextMessage invalid_index], files = [],
                                trace = [Reply invalid_index]\<rparr>)
            | Some m \<Rightarrow> (Inl (Error m), \<lparr>chat = [], files = [], trace = [Reply invalid_index]\<rparr>))
       \<and> on_text_part0 env text init =
           (case rejects env Reply_invalid of
              None \<Rightarrow> (Inr (), \<lparr>chat = [TextMessage invalid_part0], files = [],
                                trace = [Reply invalid_part0]\<rparr>)
            | Some m \<Rightarrow> (Inl (Error m), \<lparr>chat = [], files = [], trace = [Reply invalid_part0]\<rparr>))"
  using assms
  by (simp add: on_text_index_def on_text_part0_def Let_def reply_def io_defs init_def
      split: option.split)

theorem invalid_link_no_lookup_witness:
  "\<not> validateURL (example_env (str ''clip'') (str ''60'') (Finished 1000000) accepting)
        (trim not_a_link)
   \<and> trace (snd (on_text_index
        (example_env (str ''clip'') (str ''60'') (Finished 1000000) accepting) not_a_link init)) =
       [Reply invalid_index]
   \<and> trace (snd (on_text_part0
        (example_env (str ''clip'') (str ''60'') (Finished 1000000) accepting) not_a_link init)) =
       [Reply invalid_part0]"
proof -
  let ?env = "example_env (str ''clip'') (str ''60'') (Finished 1000000) accepting"
  have t: "trim not_a_link = not_a_link"
    by (simp add: trim_def not_a_link_def str_def isStrWhiteSpace_def)
  have a: "\<not> validateURL ?env (trim not_a_link)"
    unfolding t by (simp add: example_env_def not_a_link_def str_def)
  have r: "rejects ?env Reply_invalid = None"
    by (simp add: example_env_simps accepting_def)
  show ?thesis
    using a invalid_link_no_lookup [OF a] by (simp add: r)
qed

lemma truncated_simps:
  "validateURL (truncated env) = validateURL env"
  "rejects (truncated env) = rejects env"
  "piped (truncated env) = piped env"
  "now (truncated env) = now env"
  "dirname (truncated env) = dirname env"
  by (simp_all add: truncated_def)

lemma truncated_services:
  "reply (truncated env) s text = reply env s text"
  "editMessageText (truncated env) s i text = editMessageText env s i text"
  "deleteMessage (truncated env) s i = deleteMessage env s i"
  "sendVideo (truncated env) s src caption = sendVideo env s src caption"
  "pipe_finished (truncated env) path = pipe_finished env path"
  "filepath_of (truncated env) title = filepath_of env title"
  by (simp_all add: reply_def editMessageText_def deleteMessage_def sendVideo_def
      pipe_finished_def filepath_of_def tempDir_def answer_def truncated_simps fun_eq_iff)

lemma truncated_delivery:
  "downloadVideo_index (truncated env) url title duration statusMsg =
     downloadVideo_index env url title duration statusMsg"
  "streamVideo_index (truncated env) url title duration statusMsg =
     streamVideo_index env url title duration statusMsg"
  "downloadVideo_part0 (truncated env) url title duration statusMsg =
     downloadVideo_part0 env url title duration statusMsg"
  "streamVideo_part0 (truncated env) url title duration statusMsg =
     streamVideo_part0 env url title duration statusMsg"
  unfolding downloadVideo_index_def streamVideo_index_def
      downloadVideo_part0_def streamVideo_part0_def truncated_services
  by (rule refl)+

lemma getInfo_io_truncated:
  "getInfo_io (truncated env) url ua =
     io_bind (getInfo_io env url ua)
       (\<lambda>v. io_return (v\<lparr>details_title := take 50 (details_title v)\<rparr>))"
  by (simp add: fun_eq_iff getInfo_io_def truncated_def io_defs split: sum.split)

lemma truncated_same_run:
  "on_text_index (truncated env) text w = on_text_index env text w"
  "on_text_part0 (truncated env) text w = on_text_part0 env text w"
  by (simp_all add: on_text_index_def on_text_part0_def Let_def truncated_simps
      truncated_services truncated_delivery getInfo_io_truncated io_bind_def try_catch_def
      io_return_def split: sum.split prod.split)

section \<open>Single paths through the delivery functions\<close>


lemmas service_defs = reply_def editMessageText_def deleteMessage_def sendVideo_def message_id_def
  getInfo_io_def ytdl_def existsSync_def createWriteStream_def pipe_finished_def statSync_def
  unlinkSync_def put_file_def visible_def

lemma index_oversize:
  assumes "piped env = Finished n" and "48 * 1024 * 1024 < n"
    and "visible w i" and "rejects env Edit_too_large = None"
  shows "fst (downloadVideo_index env url title duration (Some i) w) = Inr ()"
    and "chat (snd (downloadVideo_index env url title duration (Some i) w)) =
           (chat w)[i := TextMessage too_large_index]"
    and "files (snd (downloadVideo_index env url title duration (Some i) w)) =
           filter (\<lambda>f. fst f \<noteq> filepath_of env title) (files w)"
    and "trace (snd (downloadVideo_index env url title duration (Some i) w)) =
           trace w @
           [Call_downloadVideo url title duration (Some i),
            Ytdl url \<lparr>container_mp4 = True, quality = [str ''highest''], userAgent = None\<rparr>,
            CreateWriteStream (filepath_of env title),
            UnlinkSync (filepath_of env title),
            EditMessageText i too_large_index]"
  using assms
  by (simp_all add: downloadVideo_index_def Let_def io_defs service_defs)

lemma index_upload_rejected:
  assumes "piped env = Finished n" and "n \<le> 48 * 1024 * 1024"
    and "rejects env Send_file = Some m"
  shows "fst (downloadVideo_index env url title duration statusMsg w) = Inl (Error m)"
    and "chat (snd (downloadVideo_index env url title duration statusMsg w)) = chat w"
    and "files (snd (downloadVideo_index env url title duration statusMsg w)) =
           (filepath_of env title, n) # filter (\<lambda>f. fst f \<noteq> filepath_of env title) (files w)"
    and "trace (snd (downloadVideo_index env url title duration statusMsg w)) =
           trace w @
           [Call_downloadVideo url title duration statusMsg,
            Ytdl url \<lparr>container_mp4 = True, quality = [str ''highest''], userAgent = None\<rparr>,
            CreateWriteStream (filepath_of env title),
            SendVideo (File (filepath_of env title)) (caption_index title duration)]"
  using assms
  by (simp_all add: downloadVideo_index_def Let_def io_defs service_defs)

lemma part0_upload_rejected:
  assumes "piped env = Finished n" and "n \<le> 48 * 1024 * 1024"
    and "rejects env Send_file = Some m"
    and "visible w i" and "rejects env Edit_downloading = None"
    and "rejects env Edit_download_failed = None"
  shows "fst (downloadVideo_part0 env url title duration (Some i) w) = Inr ()"
    and "chat (snd (downloadVideo_part0 env url title duration (Some i) w)) =
           (chat w)[i := TextMessage (download_failed_part0 (Error m))]"
    and "files (snd (downloadVideo_part0 env url title duration (Some i) w)) =
           filter (\<lambda>f. fst f \<noteq> filepath_of env title) (files w)"
    and "trace (snd (downloadVideo_part0 env url title duration (Some i) w)) =
           trace w @
           [Call_downloadVideo url title duration (Some i),
            EditMessageText i (downloading_text title),
            Ytdl url \<lparr>container_mp4 = True,
              quality = [str ''highestvideo[height<=720]+bestaudio[ext=m4a]/best[ext=mp4]''],
              userAgent = Some agent_ytdl\<rparr>,
            CreateWriteStream (filepath_of env title),
            SendVideo (File (filepath_of env title))
              (caption_file_part0 title duration (of_nat n / (1024 * 1024))),
            UnlinkSync (filepath_of env title),
            EditMessageText i (download_failed_part0 (Error m))]"
  using assms
  by (simp_all add: downloadVideo_part0_def Let_def io_defs service_defs)

lemma part0_undefined_statusMsg:
  assumes "filepath_of env title \<notin> fst ` set (files w)"
  shows "downloadVideo_part0 env url title duration None w =
     (Inl (Error (str ''Cannot read properties of undefined (reading 'message_id')'')),
      w\<lparr>trace := trace w @ [Call_downloadVideo url title duration None]\<rparr>)"
  using assms
  by (simp add: downloadVideo_part0_def Let_def io_defs service_defs)


lemma filter_after_emits:
  assumes "emits (\<lambda>ev. \<not> Q ev) m"
  shows "filter Q (trace (snd (m w))) = filter Q (trace w)"
proof -
  from emitsD [OF assms, of w] obtain evs where
    "trace (snd (m w)) = trace w @ evs" "list_all (\<lambda>ev. \<not> Q ev) evs"
    by auto
  then show ?thesis by (simp add: list_all_iff filter_empty_conv)
qed

lemma io_bind_assoc: "io_bind (io_bind m g) f = io_bind m (\<lambda>x. io_bind (g x) f)"
  by (simp add: fun_eq_iff io_bind_def split: prod.split sum.split)

lemma bind_returns: "m w = (Inr x, w') \<Longrightarrow> io_bind m f w = f x w'"
  by (simp add: io_bind_def)

lemma catch_bind_returns: "m w = (Inr x, w') \<Longrightarrow> try_catch (io_bind m f) h w = try_catch (f x) h w'"
  by (simp add: try_catch_def io_bind_def)

lemma emit_returns: "emit ev w = (Inr (), w\<lparr>trace := trace w @ [ev]\<rparr>)"
  by (simp add: emit_def)

lemma ytdl_returns: "ytdl url opts w = (Inr (Stream url opts), w\<lparr>trace := trace w @ [Ytdl url opts]\<rparr>)"
  by (simp add: ytdl_def io_defs)

lemma createWriteStream_returns:
  "createWriteStream path w = (Inr (), w\<lparr>trace := trace w @ [CreateWriteStream path]\<rparr>)"
  by (simp add: createWriteStream_def io_defs)

lemma pipe_finished_returns:
  "piped env = Finished n \<Longrightarrow> pipe_finished env path w = (Inr (), put_file path n w)"
  by (simp add: pipe_finished_def)

lemma statSync_returns:
  "map_of (files w) path = Some n \<Longrightarrow> statSync path w = (Inr n, w)"
  by (simp add: statSync_def)

lemma message_id_returns: "message_id (Some i) w = (Inr i, w)"
  by (simp add: message_id_def io_defs)

lemma editMessageText_returns:
  "rejects env s = None \<Longrightarrow> visible w i \<Longrightarrow>
   editMessageText env s i text w =
     (Inr (), w\<lparr>trace := trace w @ [EditMessageText i text], chat := (chat w)[i := TextMessage text]\<rparr>)"
  by (simp add: editMessageText_def io_defs visible_def)

lemmas bind_steps =
  bind_returns [OF emit_returns] bind_returns [OF ytdl_returns]
  bind_returns [OF createWriteStream_returns] bind_returns [OF pipe_finished_returns]
  bind_returns [OF statSync_returns] bind_returns [OF message_id_returns]
  bind_returns [OF editMessageText_returns]

lemmas catch_steps =
  catch_bind_returns [OF emit_returns] catch_bind_returns [OF ytdl_returns]
  catch_bind_returns [OF createWriteStream_returns] catch_bind_returns [OF pipe_finished_returns]
  catch_bind_returns [OF statSync_returns] catch_bind_returns [OF message_id_returns]
  catch_bind_returns [OF editMessageText_returns]

lemma map_of_put_file: "map_of (files (put_file path n w)) path = Some n"
  by (simp add: put_file_def)

lemma trace_put_file: "trace (put_file path n w) = trace w"
  by (simp add: put_file_def)

lemma visible_trace: "visible (w\<lparr>trace := t\<rparr>) i = visible w i"
  by (simp add: visible_def)

lemma filter_after_sendVideo:
  assumes "Q (SendVideo src caption)" and "\<And>x. emits (\<lambda>ev. \<not> Q ev) (f x)"
    and "\<And>e. emits (\<lambda>ev. \<not> Q ev) (h e)"
  shows "filter Q (trace (snd (try_catch (io_bind (sendVideo env s src caption) f) h w))) =
           filter Q (trace w) @ [SendVideo src caption]"
proof -
  have "emits (\<lambda>ev. \<not> Q ev)
     (try_catch (io_bind (io_bind (answer env s)
        (\<lambda>_ w. (Inr (), w\<lparr>chat := chat w @ [VideoMessage src caption]\<rparr>))) f) h)"
    by (intro emits_catch emits_bind emits_answer emits_state assms(2,3)) simp
  from filter_after_emits [OF this]
  show ?thesis
    using assms(1) by (simp add: sendVideo_def io_bind_assoc catch_steps)
qed

lemma try_catch_throw_id: "try_catch m throw = m"
  by (simp add: fun_eq_iff try_catch_def throw_def split: prod.split sum.split)

lemma uploads_of_downloadVideo_index:
  assumes "piped env = Finished n" and "filter is_upload (trace w) = []"
  shows "filter is_upload (trace (snd (downloadVideo_index env url title duration statusMsg w))) =
           (if n \<le> 48 * 1024 * 1024
            then [SendVideo (File (filepath_of env title)) (caption_index title duration)]
            else [])"
proof (cases "n \<le> 48 * 1024 * 1024")
  case True
  have "filter is_upload (trace (snd (try_catch (downloadVideo_index env url title duration statusMsg) throw w))) =
      [SendVideo (File (filepath_of env title)) (caption_index title duration)]"
    unfolding downloadVideo_index_def Let_def
    using True assms
    apply (simp add: catch_steps map_of_put_file)
    apply (subst filter_after_sendVideo)
       apply simp
      apply (intro emits_intros; simp)
     apply (rule emits_throw)
    apply (simp add: trace_put_file)
    done
  then show ?thesis using True by (simp add: try_catch_throw_id)
next
  case False
  have "filter is_upload (trace (snd (try_catch (downloadVideo_index env url title duration statusMsg) throw w))) = []"
    unfolding downloadVideo_index_def Let_def
    using False assms
    apply (simp add: catch_steps map_of_put_file)
    apply (subst filter_after_emits)
     apply (intro emits_intros; simp)
    apply (simp add: trace_put_file)
    done
  then show ?thesis using False by (simp add: try_catch_throw_id)
qed

lemma uploads_of_downloadVideo_part0:
  assumes "piped env = Finished n" and "filter is_upload (trace w) = []"
    and "visible w i" and "rejects env Edit_downloading = None"
  shows "filter is_upload (trace (snd (downloadVideo_part0 env url title duration (Some i) w))) =
           (if n \<le> 48 * 1024 * 1024
            then [SendVideo (File (filepath_of env title))
                    (caption_file_part0 title duration (of_nat n / (1024 * 1024)))]
            else [])"
proof (cases "n \<le> 48 * 1024 * 1024")
  case True
  show ?thesis
    unfolding downloadVideo_part0_def Let_def
    using True assms
    apply (simp add: bind_steps catch_steps map_of_put_file visible_trace)
    apply (subst filter_after_sendVideo)
       apply simp
      apply (intro emits_intros; simp)
     apply (intro emits_intros; simp)
    apply (simp add: trace_put_file)
    done
next
  case False
  show ?thesis
    unfolding downloadVideo_part0_def Let_def
    using False assms
    apply (simp add: bind_steps catch_steps map_of_put_file visible_trace)
    apply (subst filter_after_emits)
     apply (intro emits_intros; simp)
    apply (simp add: trace_put_file)
    done
qed


lemma try_catch_Inr: "fst (m w) = Inr x \<Longrightarrow> try_catch m h w = m w"
  by (cases "m w") (simp add: try_catch_def)

lemma try_catch_Inl: "fst (m w) = Inl e \<Longrightarrow> try_catch m h w = h e (snd (m w))"
  by (cases "m w") (simp add: try_catch_def)

lemma editMessageText_gone:
  "rejects env s = None \<Longrightarrow> \<not> visible w i \<Longrightarrow>
   editMessageText env s i text w =
     (Inl (Error (str ''400: Bad Request: message to edit not found'')),
      w\<lparr>trace := trace w @ [EditMessageText i text]\<rparr>)"
  by (simp add: editMessageText_def io_defs visible_def)

lemma index_transfer_broken:
  assumes "piped env = Broken m (Some k)"
  shows "fst (downloadVideo_index env url title duration statusMsg w) = Inl (Error m)"
    and "chat (snd (downloadVideo_index env url title duration statusMsg w)) = chat w"
    and "files (snd (downloadVideo_index env url title duration statusMsg w)) =
           (filepath_of env title, k) # filter (\<lambda>f. fst f \<noteq> filepath_of env title) (files w)"
    and "trace (snd (downloadVideo_index env url title duration statusMsg w)) =
           trace w @
           [Call_downloadVideo url title duration statusMsg,
            Ytdl url \<lparr>container_mp4 = True, quality = [str ''highest''], userAgent = None\<rparr>,
            CreateWriteStream (filepath_of env title)]"
  using assms
  by (simp_all add: downloadVideo_index_def Let_def io_defs service_defs)

lemma index_delivers_file:
  assumes "piped env = Finished n" and "n \<le> 48 * 1024 * 1024"
    and "rejects env Send_file = None" and "visible w i"
    and "rejects env Delete_downloaded = None" and "rejects env Reply_downloaded = None"
  shows "fst (downloadVideo_index env url title duration (Some i) w) = Inr ()"
    and "chat (snd (downloadVideo_index env url title duration (Some i) w)) =
           (chat w)[i := Deleted] @
           [VideoMessage (File (filepath_of env title)) (caption_index title duration),
            TextMessage downloaded_text]"
    and "files (snd (downloadVideo_index env url title duration (Some i) w)) =
           filter (\<lambda>f. fst f \<noteq> filepath_of env title) (files w)"
    and "trace (snd (downloadVideo_index env url title duration (Some i) w)) =
           trace w @
           [Call_downloadVideo url title duration (Some i),
            Ytdl url \<lparr>container_mp4 = True, quality = [str ''highest''], userAgent = None\<rparr>,
            CreateWriteStream (filepath_of env title),
            SendVideo (File (filepath_of env title)) (caption_index title duration),
            UnlinkSync (filepath_of env title),
            DeleteMessage i,
            Reply downloaded_text]"
  using assms
  by (simp_all add: downloadVideo_index_def Let_def io_defs service_defs nth_append list_update_append1)

lemma part0_oversize:
  assumes "piped env = Finished n" and "48 * 1024 * 1024 < n"
    and "visible w i" and "rejects env Edit_downloading = None"
    and "rejects env Edit_too_large = None"
  shows "fst (downloadVideo_part0 env url title duration (Some i) w) = Inr ()"
    and "chat (snd (downloadVideo_part0 env url title duration (Some i) w)) =
           (chat w)[i := TextMessage (too_large_part0 (of_nat n / (1024 * 1024)))]"
    and "files (snd (downloadVideo_part0 env url title duration (Some i) w)) =
           filter (\<lambda>f. fst f \<noteq> filepath_of env title) (files w)"
    and "trace (snd (downloadVideo_part0 env url title duration (Some i) w)) =
           trace w @
           [Call_downloadVideo url title duration (Some i),
            EditMessageText i (downloading_text title),
            Ytdl url \<lparr>container_mp4 = True,
              quality = [str ''highestvideo[height<=720]+bestaudio[ext=m4a]/best[ext=mp4]''],
              userAgent = Some agent_ytdl\<rparr>,
            CreateWriteStream (filepath_of env title),
            UnlinkSync (filepath_of env title),
            EditMessageText i (too_large_part0 (of_nat n / (1024 * 1024)))]"
  using assms
  by (simp_all add: downloadVideo_part0_def Let_def io_defs service_defs)

lemma index_stream_rejected:
  assumes "rejects env Send_stream = Some m"
  shows "streamVideo_index env url title duration statusMsg w =
     downloadVideo_index env url title duration statusMsg
       (w\<lparr>trace := trace w @
           [Call_streamVideo url title duration statusMsg,
            Ytdl url \<lparr>container_mp4 = False, quality = [str ''18''], userAgent = None\<rparr>,
            SendVideo (Stream url \<lparr>container_mp4 = False, quality = [str ''18''], userAgent = None\<rparr>)
              (caption_index title duration)]\<rparr>)"
  using assms
  by (simp add: streamVideo_index_def io_defs service_defs)

lemma part0_stream_rejected:
  assumes "rejects env Send_stream = Some m" and "visible w i"
    and "rejects env Edit_streaming = None" and "rejects env Delete_fallback = None"
  shows "streamVideo_part0 env url title duration (Some i) w =
     downloadVideo_part0 env url title duration None
       (w\<lparr>trace := trace w @
           [Call_streamVideo url title duration (Some i),
            EditMessageText i (streaming_part0 title),
            Ytdl url \<lparr>container_mp4 = False, quality = [str ''18'', str ''22'', str ''137+140''],
              userAgent = Some agent_ytdl\<rparr>,
            SendVideo (Stream url \<lparr>container_mp4 = False,
              quality = [str ''18'', str ''22'', str ''137+140''], userAgent = Some agent_ytdl\<rparr>)
              (caption_stream_part0 title duration),
            DeleteMessage i],
          chat := (chat w)[i := Deleted]\<rparr>)"
  using assms
  by (simp add: streamVideo_part0_def io_defs service_defs)


lemma informed_simps:
  "chat (informed url ua text) = [TextMessage text]"
  "files (informed url ua text) = []"
  "trace (informed url ua text) = [Reply fetching_text, GetInfo url ua, EditMessageText 0 text]"
  "visible (informed url ua text) 0"
  by (simp_all add: informed_def visible_def)

lemma editMessageText_projections:
  "trace (snd (editMessageText env s i text w)) = trace w @ [EditMessageText i text]"
  "files (snd (editMessageText env s i text w)) = files w"
  "rejects env s = None \<Longrightarrow> visible w i \<Longrightarrow>
     chat (snd (editMessageText env s i text w)) = (chat w)[i := TextMessage text]"
  "rejects env s = None \<Longrightarrow> visible w i \<Longrightarrow> fst (editMessageText env s i text w) = Inr ()"
  by (simp_all add: editMessageText_def io_defs visible_def split: option.split)

text \<open>
  C1 (index.js). A five-minute video whose file of 1000000 bytes is written completely
  and whose upload the transport then rejects: \<open>downloadVideo\<close> of index.js is left at
  the rejected \<open>await\<close>, \<open>unlinkSync\<close> is never called, and the file is still in the
  scratch directory when the handler has written its failure text.
\<close>

theorem index_leaves_file_after_failed_upload:
  "fst (on_text_index
        (example_env (str ''clip'') (str ''300'') (Finished 1000000)
           (rejecting Send_file (str ''ETIMEDOUT''))) watch_url init) = Inr ()
   \<and> files (snd (on_text_index
        (example_env (str ''clip'') (str ''300'') (Finished 1000000)
           (rejecting Send_file (str ''ETIMEDOUT''))) watch_url init)) =
       [(filepath_of (example_env (str ''clip'') (str ''300'') (Finished 1000000)
           (rejecting Send_file (str ''ETIMEDOUT''))) (str ''clip''), 1000000)]
   \<and> filter is_unlink (trace (snd (on_text_index
        (example_env (str ''clip'') (str ''300'') (Finished 1000000)
           (rejecting Send_file (str ''ETIMEDOUT''))) watch_url init))) = []
   \<and> chat (snd (on_text_index
        (example_env (str ''clip'') (str ''300'') (Finished 1000000)
           (rejecting Send_file (str ''ETIMEDOUT''))) watch_url init)) =
       [TextMessage failed_index]"
proof -
  let ?env = "example_env (str ''clip'') (str ''300'') (Finished 1000000)
                (rejecting Send_file (str ''ETIMEDOUT''))"
  let ?w = "informed watch_url None (downloading_text (str ''clip''))"
  let ?m = "downloadVideo_index ?env watch_url (str ''clip'') (Num 300) (Some 0)"
  have a: "validateURL ?env (trim watch_url)"
    by (simp add: trim_watch_url valid_watch_url)
  have b: "rejects ?env Reply_status = None" "rejects ?env Edit_info = None"
    "rejects ?env Edit_failed = None" "rejects ?env Send_file = Some (str ''ETIMEDOUT'')"
    by (simp_all add: example_env_simps rejecting_def)
  have c: "getInfo ?env (trim watch_url) =
             Inr \<lparr>details_title = str ''clip'', details_lengthSeconds = str ''300''\<rparr>"
    by (simp add: example_env_simps)
  have p: "piped ?env = Finished 1000000" "(1000000::nat) \<le> 48 * 1024 * 1024"
    by (simp_all add: example_env_simps)
  note r = index_upload_rejected [OF p b(4), of watch_url "str ''clip''" "Num 300" "Some 0" ?w]
  have v: "visible (snd (?m ?w)) 0"
    by (simp add: visible_def r(2) informed_simps)
  have run: "on_text_index ?env watch_url init =
      editMessageText ?env Edit_failed 0 failed_index (snd (?m ?w))"
    using on_text_index_selects [OF a b(1) c b(2)] try_catch_Inl [where m = ?m and w = ?w, OF r(1)]
    by (simp add: trim_watch_url take_50_clip Number_js_examples)
  show ?thesis
    unfolding run
    by (simp add: editMessageText_projections(3,4) [OF b(3) v] editMessageText_projections(1,2) r
        informed_simps)
qed


lemma take_after_emits:
  assumes "emits P m"
  shows "take (length (trace w)) (trace (snd (m w))) = trace w"
proof -
  from emitsD [OF assms, of w] obtain evs where "trace (snd (m w)) = trace w @ evs" by auto
  then show ?thesis by simp
qed

subsection \<open>The texts of a request\<close>

lemma getInfo_io_bind:
  "getInfo env url = Inr v \<Longrightarrow>
   io_bind (getInfo_io env url ua) f = io_bind (emit (GetInfo url ua)) (\<lambda>_. f v)"
  by (simp add: getInfo_io_def io_defs fun_eq_iff)

lemma downloadVideo_index_shows:
  "emits (shows_index t d) (downloadVideo_index env url t d statusMsg)"
  unfolding downloadVideo_index_def Let_def
  by (intro emits_intros; simp add: caption_index_def)

lemma streamVideo_index_shows:
  "emits (shows_index t d) (streamVideo_index env url t d statusMsg)"
  unfolding streamVideo_index_def
  by (intro emits_intros downloadVideo_index_shows; simp add: caption_index_def)

lemma on_text_index_shows:
  assumes "validateURL env (trim text)" and "getInfo env (trim text) = Inr v"
  shows "emits (shows_index (take 50 (details_title v)) (Number_js (details_lengthSeconds v)))
           (on_text_index env text)"
  unfolding on_text_index_def Let_def getInfo_io_bind [OF assms(2)]
  using assms(1)
  by (simp, intro emits_intros streamVideo_index_shows downloadVideo_index_shows;
      simp add: downloading_text_def)

lemma downloadVideo_part0_shows:
  "emits (shows_part0 t d) (downloadVideo_part0 env url t d statusMsg)"
  unfolding downloadVideo_part0_def Let_def
  by (intro emits_intros; auto simp add: downloading_text_def caption_file_part0_def)

lemma streamVideo_part0_shows:
  "emits (shows_part0 t d) (streamVideo_part0 env url t d statusMsg)"
  unfolding streamVideo_part0_def
  by (intro emits_intros downloadVideo_part0_shows;
      simp add: streaming_part0_def caption_stream_part0_def)

lemma on_text_part0_shows:
  assumes "validateURL env (trim text)" and "getInfo env (trim text) = Inr v"
  shows "emits (shows_part0 (take 50 (details_title v)) (Number_js (details_lengthSeconds v)))
           (on_text_part0 env text)"
  unfolding on_text_part0_def Let_def getInfo_io_bind [OF assms(2)]
  using assms(1)
  by (simp, intro emits_intros streamVideo_part0_shows downloadVideo_part0_shows;
      auto simp add: preparing_part0_def)

lemma trace_of_emits:
  assumes "emits P m"
  shows "list_all P (trace (snd (m init)))"
proof -
  from emitsD [OF assms, of init] obtain evs where
    "trace (snd (m init)) = trace init @ evs" "list_all P evs"
    by auto
  then show ?thesis by (simp add: init_def)
qed

lemma streamVideo_part0_emits:
  "emits (\<lambda>ev. True) (streamVideo_part0 env url title duration statusMsg)"
  unfolding streamVideo_part0_def
  by (intro emits_intros downloadVideo_part0_emits) simp_all

lemma kept_after_emits:
  assumes "emits P m" and "ev \<in> set (trace w)"
  shows "ev \<in> set (trace (snd (m w)))"
proof -
  from emitsD [OF assms(1), of w] obtain evs where "trace (snd (m w)) = trace w @ evs" by auto
  with assms(2) show ?thesis by simp
qed

text \<open>
  Once the status message is there and the metadata has come, the handler edits the
  status message to a text with the title, whatever happens afterwards.
\<close>

lemma on_text_index_edits:
  assumes "validateURL env (trim text)" and "getInfo env (trim text) = Inr v"
    and "rejects env Reply_status = None"
  shows "EditMessageText 0 (downloading_text (take 50 (details_title v)))
           \<in> set (trace (snd (on_text_index env text init)))"
proof (cases "rejects env Edit_info")
  case None
  have e: "emits (\<lambda>ev. True)
     (try_catch
        (if js_le (Number_js (details_lengthSeconds v)) (Num 120)
         then streamVideo_index env (trim text) (take 50 (details_title v))
                (Number_js (details_lengthSeconds v)) (Some 0)
         else downloadVideo_index env (trim text) (take 50 (details_title v))
                (Number_js (details_lengthSeconds v)) (Some 0))
        (\<lambda>err. editMessageText env Edit_failed 0 failed_index))"
    by (intro emits_catch emits_if streamVideo_index_emits downloadVideo_index_emits
        emits_edit_failed)
  show ?thesis
    unfolding on_text_index_selects [OF assms(1,3,2) None]
    by (rule kept_after_emits [OF e]) (simp add: informed_simps)
next
  case (Some m)
  with assms show ?thesis
    by (simp add: on_text_index_def Let_def reply_def getInfo_io_def editMessageText_def
        io_defs init_def visible_def split: option.split)
qed

lemma on_text_part0_edits:
  assumes "validateURL env (trim text)" and "getInfo env (trim text) = Inr v"
    and "rejects env Reply_status = None"
  shows "EditMessageText 0
           (preparing_part0 (take 50 (details_title v)) (Number_js (details_lengthSeconds v)))
           \<in> set (trace (snd (on_text_part0 env text init)))"
proof (cases "rejects env Edit_info")
  case None
  have e: "emits (\<lambda>ev. True)
     (try_catch
        (if js_le (Number_js (details_lengthSeconds v)) (Num 120)
         then streamVideo_part0 env (trim text) (take 50 (details_title v))
                (Number_js (details_lengthSeconds v)) (Some 0)
         else downloadVideo_part0 env (trim text) (take 50 (details_title v))
                (Number_js (details_lengthSeconds v)) (Some 0))
        (\<lambda>err. editMessageText env Edit_failed 0 (failed_part0 err)))"
    by (intro emits_catch emits_if streamVideo_part0_emits downloadVideo_part0_emits
        emits_edit_failed)
  show ?thesis
    unfolding on_text_part0_selects [OF assms(1,3,2) None]
    by (rule kept_after_emits [OF e]) (simp add: informed_simps)
next
  case (Some m)
  with assms show ?thesis
    by (simp add: on_text_part0_def Let_def reply_def getInfo_io_def editMessageText_def
        io_defs init_def visible_def split: option.split)
qed

text \<open>
  C7. For a video that was resolved, with any title: every caption and every status text
  of the request that carries the title carries exactly its first 50 code units, in
  both files; the status text with the title is written as soon as the status message
  is there; and nothing of the run depends on the rest of the title, since a service
  that cuts every title to 50 code units gives the same run.
\<close>

theorem title_first_50:
  assumes "validateURL env (trim text)" and "getInfo env (trim text) = Inr v"
  shows "list_all (shows_index (take 50 (details_title v)) (Number_js (details_lengthSeconds v)))
           (trace (snd (on_text_index env text init)))
       \<and> list_all (shows_part0 (take 50 (details_title v)) (Number_js (details_lengthSeconds v)))
           (trace (snd (on_text_part0 env text init)))
       \<and> (rejects env Reply_status = None \<longrightarrow>
            EditMessageText 0
              (camera @ str '' '' @ take 50 (details_title v) @ nl @ down_arrow @
               str '' Downloading...'')
              \<in> set (trace (snd (on_text_index env text init)))
          \<and> EditMessageText 0
              (camera @ str '' '' @ take 50 (details_title v) @ nl @ down_arrow @
               str '' Preparing video... ('' @
               duration_text (Number_js (details_lengthSeconds v)) @ str '')'')
              \<in> set (trace (snd (on_text_part0 env text init))))
       \<and> on_text_index (truncated env) text w = on_text_index env text w
       \<and> on_text_part0 (truncated env) text w = on_text_part0 env text w"
  using trace_of_emits [OF on_text_index_shows [OF assms]]
    trace_of_emits [OF on_text_part0_shows [OF assms]]
    on_text_index_edits [OF assms] on_text_part0_edits [OF assms]
  by (simp add: truncated_same_run downloading_text_def preparing_part0_def)

lemma part0_delivers_file:
  assumes "piped env = Finished n" and "n \<le> 48 * 1024 * 1024"
    and "rejects env Send_file = None" and "visible w i"
    and "rejects env Edit_downloading = None"
    and "rejects env Delete_downloaded = None" and "rejects env Reply_downloaded = None"
  shows "fst (downloadVideo_part0 env url title duration (Some i) w) = Inr ()"
    and "trace (snd (downloadVideo_part0 env url title duration (Some i) w)) =
           trace w @
           [Call_downloadVideo url title duration (Some i),
            EditMessageText i (downloading_text title),
            Ytdl url \<lparr>container_mp4 = True,
              quality = [str ''highestvideo[height<=720]+bestaudio[ext=m4a]/best[ext=mp4]''],
              userAgent = Some agent_ytdl\<rparr>,
            CreateWriteStream (filepath_of env title),
            SendVideo (File (filepath_of env title))
              (caption_file_part0 title duration (of_nat n / (1024 * 1024))),
            UnlinkSync (filepath_of env title),
            DeleteMessage i,
            Reply downloaded_text]"
  using assms
  by (simp_all add: downloadVideo_part0_def Let_def io_defs service_defs nth_append
      list_update_append1)

lemma duration_text_300: "duration_text (Num 300) = str ''5:00''"
proof -
  have "duration_text (Num 300) = spec_M_SS (nat 300)"
    by (rule duration_text_nonneg) simp_all
  then show ?thesis by (simp add: spec_M_SS_def decimal_small str_def)
qed

lemma toFixed1_1000000: "toFixed1 (of_nat 1000000 / (1024 * 1024)) = str ''1.0''"
proof -
  have "\<lfloor>10 * (of_nat 1000000 / (1024 * 1024)) + 1 / 2 :: rat\<rfloor> = 10"
    by (rule floor_unique) simp_all
  then show ?thesis
    unfolding toFixed1_def Let_def by (simp add: decimal_small decimal_two str_def)
qed

text \<open>
  C7, at a title of 60 code units and a video of five minutes that is downloaded and
  sent: the status texts and the caption of the upload carry the first 50 code units,
  in both files.
\<close>

theorem title_first_50_witness:
  "validateURL (example_env long_title (str ''300'') (Finished 1000000) accepting) (trim watch_url)
   \<and> length long_title = 60
   \<and> list_all (shows_index (replicate 50 0x61) (Num 300))
       (trace (snd (on_text_index
          (example_env long_title (str ''300'') (Finished 1000000) accepting) watch_url init)))
   \<and> list_all (shows_part0 (replicate 50 0x61) (Num 300))
       (trace (snd (on_text_part0
          (example_env long_title (str ''300'') (Finished 1000000) accepting) watch_url init)))
   \<and> trace (snd (on_text_index
          (example_env long_title (str ''300'') (Finished 1000000) accepting) watch_url init)) =
       [Reply fetching_text,
        GetInfo watch_url None,
        EditMessageText 0
          (camera @ str '' '' @ replicate 50 0x61 @ nl @ down_arrow @ str '' Downloading...''),
        Call_downloadVideo watch_url (replicate 50 0x61) (Num 300) (Some 0),
        Ytdl watch_url \<lparr>container_mp4 = True, quality = [str ''highest''], userAgent = None\<rparr>,
        CreateWriteStream
          (filepath_of (example_env long_title (str ''300'') (Finished 1000000) accepting)
             (replicate 50 0x61)),
        SendVideo
          (File (filepath_of (example_env long_title (str ''300'') (Finished 1000000) accepting)
             (replicate 50 0x61)))
          (camera @ str '' '' @ replicate 50 0x61 @ nl @ stopwatch @ str '' 5:00''),
        UnlinkSync
          (filepath_of (example_env long_title (str ''300'') (Finished 1000000) accepting)
             (replicate 50 0x61)),
        DeleteMessage 0,
        Reply downloaded_text]
   \<and> trace (snd (on_text_part0
          (example_env long_title (str ''300'') (Finished 1000000) accepting) watch_url init)) =
       [Reply fetching_text,
        GetInfo watch_url (Some agent_getInfo),
        EditMessageText 0
          (camera @ str '' '' @ replicate 50 0x61 @ nl @ down_arrow @
           str '' Preparing video... (5:00)''),
        Call_downloadVideo watch_url (replicate 50 0x61) (Num 300) (Some 0),
        EditMessageText 0
          (camera @ str '' '' @ replicate 50 0x61 @ nl @ down_arrow @ str '' Downloading...''),
        Ytdl watch_url \<lparr>container_mp4 = True,
          quality = [str ''highestvideo[height<=720]+bestaudio[ext=m4a]/best[ext=mp4]''],
          userAgent = Some agent_ytdl\<rparr>,
        CreateWriteStream
          (filepath_of (example_env long_title (str ''300'') (Finished 1000000) accepting)
             (replicate 50 0x61)),
        SendVideo
          (File (filepath_of (example_env long_title (str ''300'') (Finished 1000000) accepting)
             (replicate 50 0x61)))
          (camera @ str '' '' @ replicate 50 0x61 @ nl @ stopwatch @ str '' 5:00'' @ nl @
           inbox @ str '' 1.0MB''),
        UnlinkSync
          (filepath_of (example_env long_title (str ''300'') (Finished 1000000) accepting)
             (replicate 50 0x61)),
        DeleteMessage 0,
        Reply downloaded_text]"
proof -
  let ?env = "example_env long_title (str ''300'') (Finished 1000000) accepting"
  let ?t = "replicate 50 (0x61 :: jschar)"
  let ?w1 = "informed watch_url None (downloading_text ?t)"
  let ?w2 = "informed watch_url (Some agent_getInfo) (preparing_part0 ?t (Num 300))"
  let ?m1 = "downloadVideo_index ?env watch_url ?t (Num 300) (Some 0)"
  let ?m2 = "downloadVideo_part0 ?env watch_url ?t (Num 300) (Some 0)"
  have a: "validateURL ?env (trim watch_url)"
    by (simp add: trim_watch_url valid_watch_url)
  have b: "rejects ?env Reply_status = None" "rejects ?env Edit_info = None"
    "rejects ?env Send_file = None" "rejects ?env Edit_downloading = None"
    "rejects ?env Delete_downloaded = None" "rejects ?env Reply_downloaded = None"
    by (simp_all add: example_env_simps accepting_def)
  have c: "getInfo ?env (trim watch_url) =
             Inr \<lparr>details_title = long_title, details_lengthSeconds = str ''300''\<rparr>"
    by (simp add: example_env_simps)
  have p: "piped ?env = Finished 1000000" "(1000000::nat) \<le> 48 * 1024 * 1024"
    by (simp_all add: example_env_simps)
  have t: "take 50 long_title = ?t" "length long_title = 60"
    by (simp_all add: long_title_def)
  note r1 = index_delivers_file [OF p b(3) informed_simps(4) b(5,6),
      where url = watch_url and title = ?t and duration = "Num 300"]
  note r2 = part0_delivers_file [OF p b(3) informed_simps(4) b(4,5,6),
      where url = watch_url and title = ?t and duration = "Num 300"]
  have run1: "on_text_index ?env watch_url init = ?m1 ?w1"
    using on_text_index_selects [OF a b(1) c b(2)]
      try_catch_Inr [where m = ?m1 and w = ?w1, OF r1(1)]
    by (simp add: trim_watch_url t Number_js_examples)
  have run2: "on_text_part0 ?env watch_url init = ?m2 ?w2"
    using on_text_part0_selects [OF a b(1) c b(2)]
      try_catch_Inr [where m = ?m2 and w = ?w2, OF r2(1)]
    by (simp add: trim_watch_url t Number_js_examples)
  have texts:
    "downloading_text ?t = camera @ str '' '' @ ?t @ nl @ down_arrow @ str '' Downloading...''"
    "caption_index ?t (Num 300) = camera @ str '' '' @ ?t @ nl @ stopwatch @ str '' 5:00''"
    "preparing_part0 ?t (Num 300) =
       camera @ str '' '' @ ?t @ nl @ down_arrow @ str '' Preparing video... (5:00)''"
    "caption_file_part0 ?t (Num 300) (of_nat 1000000 / (1024 * 1024)) =
       camera @ str '' '' @ ?t @ nl @ stopwatch @ str '' 5:00'' @ nl @ inbox @ str '' 1.0MB''"
    unfolding downloading_text_def caption_index_def preparing_part0_def caption_file_part0_def
      duration_text_300 toFixed1_1000000
    by (simp_all add: str_def)
  have traces:
    "trace (snd (on_text_index ?env watch_url init)) = trace ?w1 @
       [Call_downloadVideo watch_url ?t (Num 300) (Some 0),
        Ytdl watch_url \<lparr>container_mp4 = True, quality = [str ''highest''], userAgent = None\<rparr>,
        CreateWriteStream (filepath_of ?env ?t),
        SendVideo (File (filepath_of ?env ?t)) (caption_index ?t (Num 300)),
        UnlinkSync (filepath_of ?env ?t),
        DeleteMessage 0,
        Reply downloaded_text]"
    "trace (snd (on_text_part0 ?env watch_url init)) = trace ?w2 @
       [Call_downloadVideo watch_url ?t (Num 300) (Some 0),
        EditMessageText 0 (downloading_text ?t),
        Ytdl watch_url \<lparr>container_mp4 = True,
          quality = [str ''highestvideo[height<=720]+bestaudio[ext=m4a]/best[ext=mp4]''],
          userAgent = Some agent_ytdl\<rparr>,
        CreateWriteStream (filepath_of ?env ?t),
        SendVideo (File (filepath_of ?env ?t))
          (caption_file_part0 ?t (Num 300) (of_nat 1000000 / (1024 * 1024))),
        UnlinkSync (filepath_of ?env ?t),
        DeleteMessage 0,
        Reply downloaded_text]"
    unfolding run1 run2 by (rule r1(4), rule r2(2))
  have s: "list_all (shows_index ?t (Num 300)) (trace (snd (on_text_index ?env watch_url init)))"
    "list_all (shows_part0 ?t (Num 300)) (trace (snd (on_text_part0 ?env watch_url init)))"
    using title_first_50 [OF a c, of init] by (simp_all add: t Number_js_examples)
  show ?thesis
    unfolding traces informed_simps texts
    using a t(2) s [unfolded traces informed_simps texts] by simp
qed

text \<open>
  C9. After a complete write of \<open>n\<close> bytes, \<open>downloadVideo\<close> uploads the file exactly when
  \<open>n \<le> 48 * 1024 * 1024\<close>: at exactly 48 MB the file is uploaded, and only a larger one
  is turned away without an upload. In the second file this is for a call that got as
  far as the write (its status message is there and its first edit was accepted).
\<close>

theorem ceiling_is_strict:
  assumes "piped env = Finished n" and "filter is_upload (trace w) = []"
    and "visible w i" and "rejects env Edit_downloading = None"
  shows "filter is_upload (trace (snd (downloadVideo_index env url title duration statusMsg w))) =
           (if n \<le> 48 * 1024 * 1024
            then [SendVideo (File (filepath_of env title)) (caption_index title duration)]
            else [])
       \<and> filter is_upload (trace (snd (downloadVideo_part0 env url title duration (Some i) w))) =
           (if n \<le> 48 * 1024 * 1024
            then [SendVideo (File (filepath_of env title))
                    (caption_file_part0 title duration (of_nat n / (1024 * 1024)))]
            else [])"
  using uploads_of_downloadVideo_index [OF assms(1,2)] uploads_of_downloadVideo_part0 [OF assms] by simp

theorem ceiling_is_strict_witness:
  "filter is_upload (trace (snd (downloadVideo_index
       (example_env (str ''clip'') (str ''300'') (Finished (48 * 1024 * 1024)) accepting)
       watch_url (str ''clip'') (Num 300) (Some 0)
       (informed watch_url None (downloading_text (str ''clip'')))))) =
     [SendVideo
        (File (filepath_of
           (example_env (str ''clip'') (str ''300'') (Finished (48 * 1024 * 1024)) accepting)
           (str ''clip'')))
        (caption_index (str ''clip'') (Num 300))]
   \<and> filter is_upload (trace (snd (downloadVideo_part0
       (example_env (str ''clip'') (str ''300'') (Finished (48 * 1024 * 1024)) accepting)
       watch_url (str ''clip'') (Num 300) (Some 0)
       (informed watch_url (Some agent_getInfo) (preparing_part0 (str ''clip'') (Num 300)))))) =
     [SendVideo
        (File (filepath_of
           (example_env (str ''clip'') (str ''300'') (Finished (48 * 1024 * 1024)) accepting)
           (str ''clip'')))
        (caption_file_part0 (str ''clip'') (Num 300) 48)]"
proof -
  let ?env = "example_env (str ''clip'') (str ''300'') (Finished (48 * 1024 * 1024)) accepting"
  have p: "piped ?env = Finished (48 * 1024 * 1024)"
    by (simp add: example_env_simps)
  let ?w1 = "informed watch_url None (downloading_text (str ''clip''))"
  let ?w2 = "informed watch_url (Some agent_getInfo) (preparing_part0 (str ''clip'') (Num 300))"
  have u: "filter is_upload (trace ?w1) = []" "filter is_upload (trace ?w2) = []"
    by (simp_all add: informed_simps)
  have v: "visible ?w1 0" "visible ?w2 0"
    by (simp_all add: informed_simps)
  have r: "rejects ?env Edit_downloading = None"
    by (simp add: example_env_simps accepting_def)
  show ?thesis
    using ceiling_is_strict [where url = watch_url and title = "str ''clip''"
          and duration = "Num 300" and statusMsg = "Some 0", OF p u(1) v(1) r]
      ceiling_is_strict [where url = watch_url and title = "str ''clip''"
          and duration = "Num 300" and statusMsg = "Some 0", OF p u(2) v(2) r]
    by simp
qed

section \<open>Where the two files part\<close>


lemma toFixed1_49: "toFixed1 (of_nat (49 * 1024 * 1024) / (1024 * 1024)) = str ''49.0''"
proof -
  have "\<lfloor>981 / 2 :: rat\<rfloor> = 490"
    using floor_divide_of_int_eq [of 981 2, where ?'a = rat] by simp
  then show ?thesis
    by (simp add: toFixed1_def Let_def decimal_small decimal_two str_def)
qed

lemma index_oversize_run:
  assumes "48 * 1024 * 1024 < n"
  shows "on_text_index (example_env (str ''clip'') (str ''300'') (Finished n) accepting)
           watch_url init =
     (Inr (),
      \<lparr>chat = [TextMessage too_large_index], files = [],
       trace =
         [Reply fetching_text, GetInfo watch_url None,
          EditMessageText 0 (downloading_text (str ''clip'')),
          Call_downloadVideo watch_url (str ''clip'') (Num 300) (Some 0),
          Ytdl watch_url \<lparr>container_mp4 = True, quality = [str ''highest''], userAgent = None\<rparr>,
          CreateWriteStream
            (filepath_of (example_env (str ''clip'') (str ''300'') (Finished n) accepting)
               (str ''clip'')),
          UnlinkSync
            (filepath_of (example_env (str ''clip'') (str ''300'') (Finished n) accepting)
               (str ''clip'')),
          EditMessageText 0 too_large_index]\<rparr>)"
proof -
  let ?env = "example_env (str ''clip'') (str ''300'') (Finished n) accepting"
  let ?w = "informed watch_url None (downloading_text (str ''clip''))"
  let ?m = "downloadVideo_index ?env watch_url (str ''clip'') (Num 300) (Some 0)"
  have a: "validateURL ?env (trim watch_url)"
    by (simp add: trim_watch_url valid_watch_url)
  have b: "rejects ?env Reply_status = None" "rejects ?env Edit_info = None"
    "rejects ?env Edit_too_large = None"
    by (simp_all add: example_env_simps accepting_def)
  have c: "getInfo ?env (trim watch_url) =
             Inr \<lparr>details_title = str ''clip'', details_lengthSeconds = str ''300''\<rparr>"
    by (simp add: example_env_simps)
  have p: "piped ?env = Finished n"
    by (simp add: example_env_simps)
  note r = index_oversize [OF p assms informed_simps(4) b(3),
      where url = watch_url and title = "str ''clip''" and duration = "Num 300"]
  have "on_text_index ?env watch_url init = ?m ?w"
    using on_text_index_selects [OF a b(1) c b(2)] try_catch_Inr [where m = ?m and w = ?w, OF r(1)]
    by (simp add: trim_watch_url take_50_clip Number_js_examples)
  moreover have "?m ?w = (fst (?m ?w), \<lparr>chat = chat (snd (?m ?w)), files = files (snd (?m ?w)),
      trace = trace (snd (?m ?w))\<rparr>)"
    by (simp add: prod_eq_iff)
  ultimately show ?thesis
    by (simp add: r informed_simps)
qed

text \<open>
  C3 (index.js). A five-minute video whose file measures 49 MB, and one whose file
  measures 100 MB: in both runs the file is removed and nothing is uploaded, and the
  status message ends as the same fixed text, which names the limit and not the size
  that was measured.
\<close>

theorem index_too_large_text_has_no_size:
  "chat (snd (on_text_index
       (example_env (str ''clip'') (str ''300'') (Finished (49 * 1024 * 1024)) accepting)
       watch_url init)) = [TextMessage (package @ str '' Video too large (max 48MB)'')]
   \<and> chat (snd (on_text_index
       (example_env (str ''clip'') (str ''300'') (Finished (100 * 1024 * 1024)) accepting)
       watch_url init)) = [TextMessage (package @ str '' Video too large (max 48MB)'')]
   \<and> files (snd (on_text_index
       (example_env (str ''clip'') (str ''300'') (Finished (49 * 1024 * 1024)) accepting)
       watch_url init)) = []
   \<and> filter is_upload (trace (snd (on_text_index
       (example_env (str ''clip'') (str ''300'') (Finished (49 * 1024 * 1024)) accepting)
       watch_url init))) = []"
proof -
  have a: "(48::nat) * 1024 * 1024 < 49 * 1024 * 1024" "(48::nat) * 1024 * 1024 < 100 * 1024 * 1024"
    by simp_all
  show ?thesis
    unfolding index_oversize_run [OF a(1)] index_oversize_run [OF a(2)]
    by (simp add: too_large_index_def)
qed

lemma part0_fallback_run:
  "on_text_part0
     (example_env (str ''clip'') (str ''60'') (Finished 1000000)
        (rejecting Send_stream (str ''ETIMEDOUT''))) watch_url init =
   (Inl (Error (str ''400: Bad Request: message to edit not found'')),
    \<lparr>chat = [Deleted], files = [],
     trace =
       [Reply fetching_text,
        GetInfo watch_url (Some agent_getInfo),
        EditMessageText 0 (preparing_part0 (str ''clip'') (Num 60)),
        Call_streamVideo watch_url (str ''clip'') (Num 60) (Some 0),
        EditMessageText 0 (streaming_part0 (str ''clip'')),
        Ytdl watch_url \<lparr>container_mp4 = False,
          quality = [str ''18'', str ''22'', str ''137+140''], userAgent = Some agent_ytdl\<rparr>,
        SendVideo (Stream watch_url \<lparr>container_mp4 = False,
          quality = [str ''18'', str ''22'', str ''137+140''], userAgent = Some agent_ytdl\<rparr>)
          (caption_stream_part0 (str ''clip'') (Num 60)),
        DeleteMessage 0,
        Call_downloadVideo watch_url (str ''clip'') (Num 60) None,
        EditMessageText 0
          (failed_part0
             (Error (str ''Cannot read properties of undefined (reading 'message_id')'')))]\<rparr>)"
proof -
  let ?env = "example_env (str ''clip'') (str ''60'') (Finished 1000000)
                (rejecting Send_stream (str ''ETIMEDOUT''))"
  let ?w = "informed watch_url (Some agent_getInfo) (preparing_part0 (str ''clip'') (Num 60))"
  let ?m = "streamVideo_part0 ?env watch_url (str ''clip'') (Num 60) (Some 0)"
  have a: "validateURL ?env (trim watch_url)"
    by (simp add: trim_watch_url valid_watch_url)
  have b: "rejects ?env Reply_status = None" "rejects ?env Edit_info = None"
    "rejects ?env Edit_streaming = None" "rejects ?env Delete_fallback = None"
    "rejects ?env Edit_failed = None" "rejects ?env Send_stream = Some (str ''ETIMEDOUT'')"
    by (simp_all add: example_env_simps rejecting_def)
  have c: "getInfo ?env (trim watch_url) =
             Inr \<lparr>details_title = str ''clip'', details_lengthSeconds = str ''60''\<rparr>"
    by (simp add: example_env_simps)
  have m: "?m ?w =
     (Inl (Error (str ''Cannot read properties of undefined (reading 'message_id')'')),
      \<lparr>chat = [Deleted], files = [],
       trace = trace ?w @
         [Call_streamVideo watch_url (str ''clip'') (Num 60) (Some 0),
          EditMessageText 0 (streaming_part0 (str ''clip'')),
          Ytdl watch_url \<lparr>container_mp4 = False,
            quality = [str ''18'', str ''22'', str ''137+140''], userAgent = Some agent_ytdl\<rparr>,
          SendVideo (Stream watch_url \<lparr>container_mp4 = False,
            quality = [str ''18'', str ''22'', str ''137+140''], userAgent = Some agent_ytdl\<rparr>)
            (caption_stream_part0 (str ''clip'') (Num 60)),
          DeleteMessage 0,
          Call_downloadVideo watch_url (str ''clip'') (Num 60) None]\<rparr>)"
    unfolding part0_stream_rejected [OF b(6) informed_simps(4) b(3) b(4)]
    by (subst part0_undefined_statusMsg) (simp_all add: informed_def)
  have "on_text_part0 ?env watch_url init =
      editMessageText ?env Edit_failed 0
        (failed_part0 (Error (str ''Cannot read properties of undefined (reading 'message_id')'')))
        (snd (?m ?w))"
    using on_text_part0_selects [OF a b(1) c b(2)]
      try_catch_Inl [where m = ?m and w = ?w
        and e = "Error (str ''Cannot read properties of undefined (reading 'message_id')'')"]
    by (simp add: trim_watch_url take_50_clip Number_js_examples m)
  then show ?thesis
    by (simp add: m editMessageText_gone [OF b(5)] visible_def informed_simps)
qed

lemma part0_fallback_refused:
  assumes "rejects env Send_stream = Some m" and "visible w i"
    and "rejects env Edit_streaming = None" and "rejects env Delete_fallback = Some m'"
  shows "streamVideo_part0 env url title duration (Some i) w =
     (Inl (Error m'),
      w\<lparr>trace := trace w @
           [Call_streamVideo url title duration (Some i),
            EditMessageText i (streaming_part0 title),
            Ytdl url \<lparr>container_mp4 = False, quality = [str ''18'', str ''22'', str ''137+140''],
              userAgent = Some agent_ytdl\<rparr>,
            SendVideo (Stream url \<lparr>container_mp4 = False,
              quality = [str ''18'', str ''22'', str ''137+140''], userAgent = Some agent_ytdl\<rparr>)
              (caption_stream_part0 title duration),
            DeleteMessage i],
          chat := (chat w)[i := TextMessage (streaming_part0 title)]\<rparr>)"
  using assms
  by (simp add: streamVideo_part0_def io_defs service_defs)

lemma part0_fallback_refused_run:
  "on_text_part0
     (example_env (str ''clip'') (str ''60'') (Finished 1000000)
        ((rejecting Send_stream (str ''ETIMEDOUT''))
           (Delete_fallback := Some (str ''400: Bad Request: MESSAGE_DELETE_FORBIDDEN''))))
     watch_url init =
   (Inr (),
    \<lparr>chat = [TextMessage (failed_part0
               (Error (str ''400: Bad Request: MESSAGE_DELETE_FORBIDDEN'')))],
     files = [],
     trace =
       [Reply fetching_text,
        GetInfo watch_url (Some agent_getInfo),
        EditMessageText 0 (preparing_part0 (str ''clip'') (Num 60)),
        Call_streamVideo watch_url (str ''clip'') (Num 60) (Some 0),
        EditMessageText 0 (streaming_part0 (str ''clip'')),
        Ytdl watch_url \<lparr>container_mp4 = False,
          quality = [str ''18'', str ''22'', str ''137+140''], userAgent = Some agent_ytdl\<rparr>,
        SendVideo (Stream watch_url \<lparr>container_mp4 = False,
          quality = [str ''18'', str ''22'', str ''137+140''], userAgent = Some agent_ytdl\<rparr>)
          (caption_stream_part0 (str ''clip'') (Num 60)),
        DeleteMessage 0,
        EditMessageText 0
          (failed_part0 (Error (str ''400: Bad Request: MESSAGE_DELETE_FORBIDDEN'')))]\<rparr>)"
proof -
  let ?env = "example_env (str ''clip'') (str ''60'') (Finished 1000000)
                ((rejecting Send_stream (str ''ETIMEDOUT''))
                   (Delete_fallback := Some (str ''400: Bad Request: MESSAGE_DELETE_FORBIDDEN'')))"
  let ?w = "informed watch_url (Some agent_getInfo) (preparing_part0 (str ''clip'') (Num 60))"
  let ?m = "streamVideo_part0 ?env watch_url (str ''clip'') (Num 60) (Some 0)"
  have a: "validateURL ?env (trim watch_url)"
    by (simp add: trim_watch_url valid_watch_url)
  have b: "rejects ?env Reply_status = None" "rejects ?env Edit_info = None"
    "rejects ?env Edit_streaming = None"
    "rejects ?env Delete_fallback = Some (str ''400: Bad Request: MESSAGE_DELETE_FORBIDDEN'')"
    "rejects ?env Edit_failed = None" "rejects ?env Send_stream = Some (str ''ETIMEDOUT'')"
    by (simp_all add: example_env_simps rejecting_def)
  have c: "getInfo ?env (trim watch_url) =
             Inr \<lparr>details_title = str ''clip'', details_lengthSeconds = str ''60''\<rparr>"
    by (simp add: example_env_simps)
  note m = part0_fallback_refused [OF b(6) informed_simps(4) b(3) b(4),
      where url = watch_url and title = "str ''clip''" and duration = "Num 60"]
  have f: "fst (?m ?w) = Inl (Error (str ''400: Bad Request: MESSAGE_DELETE_FORBIDDEN''))"
    by (simp add: m)
  have v: "visible (snd (?m ?w)) 0"
    by (simp add: m visible_def informed_simps)
  have "on_text_part0 ?env watch_url init =
      editMessageText ?env Edit_failed 0
        (failed_part0 (Error (str ''400: Bad Request: MESSAGE_DELETE_FORBIDDEN'')))
        (snd (?m ?w))"
    using on_text_part0_selects [OF a b(1) c b(2)]
      try_catch_Inl [where m = ?m and w = ?w, OF f]
    by (simp add: trim_watch_url take_50_clip Number_js_examples)
  also note editMessageText_returns [OF b(5) v]
  finally show ?thesis
    unfolding m by (simp add: informed_def)
qed

text \<open>
  C4 (the second file). A one-minute video whose streamed upload the transport rejects
  and whose status message it then refuses to delete, every other call being accepted.
  The \<open>catch\<close> of \<open>streamVideo\<close> awaits the deletion of the status message before it
  calls \<open>downloadVideo\<close>, so the rejected deletion leaves \<open>streamVideo\<close> at once: the one
  delivery function the request enters is \<open>streamVideo\<close>, no download is attempted, and
  the status message ends with the error of the deletion.
\<close>

theorem part0_no_fallback_after_refused_delete:
  "calls (snd (on_text_part0
       (example_env (str ''clip'') (str ''60'') (Finished 1000000)
          ((rejecting Send_stream (str ''ETIMEDOUT''))
             (Delete_fallback := Some (str ''400: Bad Request: MESSAGE_DELETE_FORBIDDEN''))))
       watch_url init)) =
     [Call_streamVideo watch_url (str ''clip'') (Num 60) (Some 0)]
   \<and> trace (snd (on_text_part0
       (example_env (str ''clip'') (str ''60'') (Finished 1000000)
          ((rejecting Send_stream (str ''ETIMEDOUT''))
             (Delete_fallback := Some (str ''400: Bad Request: MESSAGE_DELETE_FORBIDDEN''))))
       watch_url init)) =
     [Reply fetching_text,
      GetInfo watch_url (Some agent_getInfo),
      EditMessageText 0 (preparing_part0 (str ''clip'') (Num 60)),
      Call_streamVideo watch_url (str ''clip'') (Num 60) (Some 0),
      EditMessageText 0 (streaming_part0 (str ''clip'')),
      Ytdl watch_url \<lparr>container_mp4 = False,
        quality = [str ''18'', str ''22'', str ''137+140''], userAgent = Some agent_ytdl\<rparr>,
      SendVideo (Stream watch_url \<lparr>container_mp4 = False,
        quality = [str ''18'', str ''22'', str ''137+140''], userAgent = Some agent_ytdl\<rparr>)
        (caption_stream_part0 (str ''clip'') (Num 60)),
      DeleteMessage 0,
      EditMessageText 0
        (failed_part0 (Error (str ''400: Bad Request: MESSAGE_DELETE_FORBIDDEN'')))]
   \<and> chat (snd (on_text_part0
       (example_env (str ''clip'') (str ''60'') (Finished 1000000)
          ((rejecting Send_stream (str ''ETIMEDOUT''))
             (Delete_fallback := Some (str ''400: Bad Request: MESSAGE_DELETE_FORBIDDEN''))))
       watch_url init)) =
     [TextMessage (failed_part0 (Error (str ''400: Bad Request: MESSAGE_DELETE_FORBIDDEN'')))]"
  by (simp add: part0_fallback_refused_run calls_def)

text \<open>
  C5 (the second file). A one-minute video whose streamed upload the transport rejects,
  every other call being accepted: the \<open>catch\<close> of \<open>streamVideo\<close> deletes the status
  message and calls \<open>downloadVideo\<close> without it, and that call throws on its first
  statement and again in its own \<open>catch\<close>. The request ends with the status message
  deleted, no video in the chat and no error text to be seen, and the handler itself
  rejects.
\<close>

theorem part0_fallback_leaves_no_status:
  "chat (snd (on_text_part0
       (example_env (str ''clip'') (str ''60'') (Finished 1000000)
          (rejecting Send_stream (str ''ETIMEDOUT''))) watch_url init)) = [Deleted]
   \<and> fst (on_text_part0
       (example_env (str ''clip'') (str ''60'') (Finished 1000000)
          (rejecting Send_stream (str ''ETIMEDOUT''))) watch_url init) =
       Inl (Error (str ''400: Bad Request: message to edit not found''))"
  by (simp add: part0_fallback_run)

section \<open>The scratch directory after a request\<close>

lemma hoareI:
  assumes "\<And>w r w'. P w \<Longrightarrow> m w = (r, w') \<Longrightarrow> (case r of Inl e \<Rightarrow> E w' | Inr x \<Rightarrow> Q w')"
  shows "hoare P m Q E"
  unfolding hoare_def
proof (intro allI impI)
  fix w assume p: "P w"
  obtain r w' where mw: "m w = (r, w')" by (cases "m w")
  from assms [OF p mw] show "case m w of (Inl e, w') \<Rightarrow> E w' | (Inr x, w') \<Rightarrow> Q w'"
    by (simp add: mw split: sum.split)
qed

lemma hoareD:
  assumes "hoare P m Q E" and "P w" and "m w = (r, w')"
  shows "case r of Inl e \<Rightarrow> E w' | Inr x \<Rightarrow> Q w'"
proof -
  from assms(1,2) have "case m w of (Inl e, w') \<Rightarrow> E w' | (Inr x, w') \<Rightarrow> Q w'"
    by (simp add: hoare_def)
  then show ?thesis by (simp add: assms(3) split: sum.split)
qed

lemma hoare_bind:
  assumes "hoare P m R E" and "\<And>x. hoare R (f x) Q E"
  shows "hoare P (io_bind m f) Q E"
proof (rule hoareI)
  fix w r w' assume p: "P w" and b: "io_bind m f w = (r, w')"
  obtain r1 w1 where mw: "m w = (r1, w1)" by (cases "m w")
  show "case r of Inl e \<Rightarrow> E w' | Inr x \<Rightarrow> Q w'"
  proof (cases r1)
    case (Inl e)
    with b mw have "r = Inl e" "w' = w1" by (simp_all add: io_bind_def)
    with hoareD [OF assms(1) p mw] Inl show ?thesis by simp
  next
    case (Inr x)
    with hoareD [OF assms(1) p mw] have r: "R w1" by simp
    from b mw Inr have "f x w1 = (r, w')" by (simp add: io_bind_def)
    from hoareD [OF assms(2) r this] show ?thesis .
  qed
qed

lemma hoare_catch:
  assumes "hoare P m Q R" and "\<And>e. hoare R (h e) Q E"
  shows "hoare P (try_catch m h) Q E"
proof (rule hoareI)
  fix w r w' assume p: "P w" and b: "try_catch m h w = (r, w')"
  obtain r1 w1 where mw: "m w = (r1, w1)" by (cases "m w")
  show "case r of Inl e \<Rightarrow> E w' | Inr x \<Rightarrow> Q w'"
  proof (cases r1)
    case (Inr x)
    with b mw have "r = Inr x" "w' = w1" by (simp_all add: try_catch_def)
    with hoareD [OF assms(1) p mw] Inr show ?thesis by simp
  next
    case (Inl e)
    with hoareD [OF assms(1) p mw] have r: "R w1" by simp
    from b mw Inl have "h e w1 = (r, w')" by (simp add: try_catch_def)
    from hoareD [OF assms(2) r this] show ?thesis .
  qed
qed

lemma hoare_if: "hoare P a Q E \<Longrightarrow> hoare P b Q E \<Longrightarrow> hoare P (if c then a else b) Q E"
  by simp

lemma hoare_weaken:
  assumes "hoare P m Q E" and "\<And>w. Q w \<Longrightarrow> Q' w" and "\<And>w. E w \<Longrightarrow> E' w"
  shows "hoare P m Q' E'"
proof (rule hoareI)
  fix w r w' assume p: "P w" and mw: "m w = (r, w')"
  from hoareD [OF assms(1) p mw] show "case r of Inl e \<Rightarrow> E' w' | Inr x \<Rightarrow> Q' w'"
    by (cases r) (simp_all add: assms(2,3))
qed

lemma hoare_same:
  assumes "\<And>w. P w \<Longrightarrow> R (snd (m w))"
  shows "hoare P m R R"
proof (rule hoareI)
  fix w r w' assume "P w" and mw: "m w = (r, w')"
  from assms [OF this(1)] mw have "R w'" by simp
  then show "case r of Inl e \<Rightarrow> R w' | Inr x \<Rightarrow> R w'"
    by (cases r) simp_all
qed

lemma only_file_filter: "only_file path w \<Longrightarrow> filter (\<lambda>f. fst f \<noteq> path) (files w) = []"
  by (simp add: only_file_def list_all_iff filter_empty_conv)

lemma only_file_absent:
  "only_file path w \<Longrightarrow> path \<notin> fst ` set (files w) \<Longrightarrow> files w = []"
  by (cases "files w") (simp_all add: only_file_def)

lemma unlinkSync_only_file:
  assumes "only_file path w"
  shows "files (snd (unlinkSync path w)) = []"
proof (cases "path \<in> fst ` set (files w)")
  case True
  then show ?thesis
    by (simp add: unlinkSync_def io_bind_def emit_def only_file_filter [OF assms])
next
  case False
  from only_file_absent [OF assms this] have "files w = []" .
  then show ?thesis
    by (simp add: unlinkSync_def io_bind_def emit_def)
qed

lemma quietI: "(\<And>w. files (snd (m w)) = files w \<and> unlinks (snd (m w)) = unlinks w) \<Longrightarrow> quiet m"
  by (simp add: quiet_def)

lemma quietD: "quiet m \<Longrightarrow> files (snd (m w)) = files w \<and> unlinks (snd (m w)) = unlinks w"
  by (simp add: quiet_def)

lemma quiet_bind:
  assumes "quiet m" and "\<And>x. quiet (f x)"
  shows "quiet (io_bind m f)"
proof (rule quietI)
  fix w
  obtain r w1 where mw: "m w = (r, w1)" by (cases "m w")
  from quietD [OF assms(1), of w] mw have a: "files w1 = files w" "unlinks w1 = unlinks w"
    by simp_all
  show "files (snd (io_bind m f w)) = files w \<and> unlinks (snd (io_bind m f w)) = unlinks w"
  proof (cases r)
    case (Inl e)
    with mw a show ?thesis by (simp add: io_bind_def)
  next
    case (Inr x)
    with mw a quietD [OF assms(2), of x w1] show ?thesis by (simp add: io_bind_def)
  qed
qed

lemma quiet_catch:
  assumes "quiet m" and "\<And>e. quiet (h e)"
  shows "quiet (try_catch m h)"
proof (rule quietI)
  fix w
  obtain r w1 where mw: "m w = (r, w1)" by (cases "m w")
  from quietD [OF assms(1), of w] mw have a: "files w1 = files w" "unlinks w1 = unlinks w"
    by simp_all
  show "files (snd (try_catch m h w)) = files w \<and> unlinks (snd (try_catch m h w)) = unlinks w"
  proof (cases r)
    case (Inr x)
    with mw a show ?thesis by (simp add: try_catch_def)
  next
    case (Inl e)
    with mw a quietD [OF assms(2), of e w1] show ?thesis by (simp add: try_catch_def)
  qed
qed

lemma quiet_if: "quiet a \<Longrightarrow> quiet b \<Longrightarrow> quiet (if c then a else b)"
  by simp

lemma quiet_not_awaited: "quiet m \<Longrightarrow> quiet (not_awaited m)"
  by (simp add: quiet_def not_awaited_def)

lemma quiet_services:
  "quiet (io_return x)" "quiet (throw e)" "\<not> is_unlink ev \<Longrightarrow> quiet (emit ev)"
  "quiet (answer env s)" "quiet (message_id statusMsg)"
  by (simp_all add: quiet_def unlinks_def io_return_def throw_def emit_def answer_def
      message_id_def split: option.split)

lemma quiet_state:
  "(\<And>w. files (snd (f w)) = files w \<and> trace (snd (f w)) = trace w) \<Longrightarrow> quiet f"
  by (simp add: quiet_def unlinks_def)

lemma quiet_reply: "quiet (reply env s text)"
  unfolding reply_def by (intro quiet_bind quiet_services quiet_state; simp)

lemma quiet_editMessageText: "quiet (editMessageText env s i text)"
  unfolding editMessageText_def by (intro quiet_bind quiet_services quiet_state; simp)

lemma quiet_deleteMessage: "quiet (deleteMessage env s i)"
  unfolding deleteMessage_def by (intro quiet_bind quiet_services quiet_state; simp)

lemma quiet_sendVideo: "quiet (sendVideo env s src caption)"
  unfolding sendVideo_def by (intro quiet_bind quiet_services quiet_state; simp)

lemma quiet_getInfo_io: "quiet (getInfo_io env url ua)"
  unfolding getInfo_io_def
  by (intro quiet_bind quiet_services; simp add: quiet_services split: sum.split)

lemma quiet_ytdl: "quiet (ytdl url opts)"
  unfolding ytdl_def by (intro quiet_bind quiet_services; simp)

lemma quiet_createWriteStream: "quiet (createWriteStream path)"
  unfolding createWriteStream_def by (rule quiet_services) simp

lemma quiet_statSync: "quiet (statSync path)"
  by (rule quiet_state) (simp add: statSync_def split: option.split)

lemmas quiet_transport =
  quiet_reply quiet_editMessageText quiet_deleteMessage quiet_sendVideo

lemmas quiet_extraction =
  quiet_getInfo_io quiet_ytdl quiet_createWriteStream quiet_statSync

lemmas quiet_intros =
  quiet_bind quiet_catch quiet_if quiet_not_awaited quiet_services(1,2,4,5) quiet_transport
  quiet_extraction

lemma hoare_quiet:
  assumes "quiet m" and "\<And>w w'. files w' = files w \<Longrightarrow> unlinks w' = unlinks w \<Longrightarrow> P w \<Longrightarrow> R w'"
  shows "hoare P m R R"
proof (rule hoare_same)
  fix w assume "P w"
  with quietD [OF assms(1), of w] assms(2) show "R (snd (m w))" by blast
qed

lemma quiet_fresh: "quiet m \<Longrightarrow> hoare fresh m fresh (pending path)"
  by (rule hoare_weaken [OF hoare_quiet [where R = fresh]])
     (simp_all add: fresh_def pending_def holding_def only_file_def)

lemma quiet_holding: "quiet m \<Longrightarrow> hoare (holding path) m (holding path) (pending path)"
  by (rule hoare_weaken [OF hoare_quiet [where R = "holding path"]])
     (simp_all add: holding_def pending_def only_file_def)

lemma quiet_settled: "quiet m \<Longrightarrow> hoare settled m settled settled"
  by (rule hoare_quiet) (simp_all add: settled_def)


lemma hoare_pipe_holding:
  "hoare fresh (pipe_finished env path) (holding path) (pending path)"
  by (rule hoare_weaken [OF hoare_same [where R = "holding path"]])
     (simp_all add: fresh_def holding_def pending_def only_file_def unlinks_def
        pipe_finished_def put_file_def split: transfer.split option.split)

lemma unlinks_unlinkSync:
  "unlinks (snd (unlinkSync path w)) = unlinks w @ [UnlinkSync path]"
  by (simp add: unlinkSync_def io_bind_def emit_def unlinks_def)

lemma hoare_unlink_holding:
  "hoare (holding path) (unlinkSync path) settled (pending path)"
proof (rule hoare_weaken [OF hoare_same [where R = settled]])
  fix w assume "holding path w"
  then show "settled (snd (unlinkSync path w))"
    by (simp add: holding_def settled_def unlinkSync_only_file unlinks_unlinkSync)
qed (simp_all add: pending_def)

lemma settled_pending: "hoare settled m settled settled \<Longrightarrow> hoare settled m settled (pending path)"
  by (erule hoare_weaken) (simp_all add: pending_def)

lemma hoare_cleanup_pending:
  assumes "\<And>x. quiet (k x)"
  shows "hoare (pending path)
     (io_bind (existsSync path) (\<lambda>there.
      io_bind (if there then unlinkSync path else io_return ()) k))
     settled settled"
proof (rule hoareI)
  fix w r w'
  assume p: "pending path w"
    and run: "io_bind (existsSync path) (\<lambda>there.
      io_bind (if there then unlinkSync path else io_return ()) k) w = (r, w')"
  let ?step = "if path \<in> fst ` set (files w) then unlinkSync path else io_return ()"
  have run': "io_bind ?step k w = (r, w')"
    using run by (simp add: io_bind_def existsSync_def)
  have e: "settled (snd (?step w))"
  proof (cases "path \<in> fst ` set (files w)")
    case True
    then have "files w \<noteq> []" by auto
    with p have h: "holding path w" by (simp add: pending_def settled_def)
    with True show ?thesis
      by (simp add: holding_def settled_def unlinkSync_only_file unlinks_unlinkSync)
  next
    case False
    from p have "settled w"
    proof (unfold pending_def, elim disjE)
      assume h: "holding path w"
      then have "only_file path w" by (simp add: holding_def)
      from only_file_absent [OF this False] h show "settled w"
        by (simp add: settled_def holding_def)
    qed
    with False show ?thesis by (simp add: io_return_def)
  qed
  obtain r1 w1 where s: "?step w = (r1, w1)" by (cases "?step w")
  with e have w1: "settled w1" by simp
  have "settled w'"
  proof (cases r1)
    case (Inl e)
    with run' s w1 show ?thesis by (simp add: io_bind_def)
  next
    case (Inr x)
    with run' s have "k x w1 = (r, w')" by (simp add: io_bind_def)
    with quietD [OF assms, of x w1] w1 show ?thesis by (simp add: settled_def)
  qed
  then show "case r of Inl e \<Rightarrow> settled w' | Inr x \<Rightarrow> settled w'"
    by (cases r) simp_all
qed

lemma fresh_quiet: "quiet m \<Longrightarrow> hoare fresh m fresh settled"
  by (rule hoare_weaken [OF hoare_quiet [where R = fresh]])
     (simp_all add: fresh_def settled_def)

lemma downloadVideo_part0_settles:
  "hoare fresh (downloadVideo_part0 env url title duration statusMsg) settled settled"
  unfolding downloadVideo_part0_def Let_def
  apply (rule hoare_bind [where R = fresh])
   apply (rule fresh_quiet)
   apply (rule quiet_services, simp)
  apply (rule hoare_catch [where R = "pending (filepath_of env title)"])
   apply (rule hoare_bind [OF quiet_fresh [OF quiet_services(5)]])
   apply (rule hoare_bind [OF quiet_fresh [OF quiet_editMessageText]])
   apply (rule hoare_bind [OF quiet_fresh [OF quiet_ytdl]])
   apply (rule hoare_bind [OF quiet_fresh [OF quiet_createWriteStream]])
   apply (rule hoare_bind [OF hoare_pipe_holding])
   apply (rule hoare_bind [OF quiet_holding [OF quiet_statSync]])
   apply (rule hoare_if)
    apply (rule hoare_bind [OF hoare_unlink_holding])
    apply (rule settled_pending)
    apply (rule quiet_settled)
    apply (intro quiet_intros)
   apply (rule hoare_bind [OF quiet_holding [OF quiet_sendVideo]])
   apply (rule hoare_bind [OF hoare_unlink_holding])
   apply (rule settled_pending)
   apply (rule quiet_settled)
   apply (intro quiet_intros)
  apply (rule hoare_cleanup_pending)
  apply (intro quiet_intros)
  done

lemma streamVideo_part0_settles:
  "hoare fresh (streamVideo_part0 env url title duration statusMsg) settled settled"
  unfolding streamVideo_part0_def
  apply (rule hoare_bind [where R = fresh])
   apply (rule fresh_quiet)
   apply (rule quiet_services, simp)
  apply (rule hoare_catch [where R = fresh])
   apply (rule hoare_weaken [OF hoare_quiet [where R = fresh]])
      apply (intro quiet_intros)
     apply (simp add: fresh_def)
    apply (simp add: fresh_def settled_def)
   apply simp
  apply (rule hoare_bind [OF fresh_quiet [OF quiet_services(5)]])
  apply (rule hoare_bind [OF fresh_quiet [OF quiet_deleteMessage]])
  apply (rule downloadVideo_part0_settles)
  done

lemma on_text_part0_settles: "hoare fresh (on_text_part0 env text) settled settled"
  unfolding on_text_part0_def Let_def
  apply (rule hoare_if)
   apply (rule hoare_weaken [OF hoare_quiet [where R = fresh]])
      apply (intro quiet_intros)
     apply (simp add: fresh_def)
    apply (simp add: fresh_def settled_def)
   apply (simp add: fresh_def settled_def)
  apply (rule hoare_bind [OF fresh_quiet [OF quiet_reply]])
  apply (rule hoare_catch [where R = settled])
   apply (rule hoare_bind [OF fresh_quiet [OF quiet_getInfo_io]])
   apply (rule hoare_bind [OF fresh_quiet [OF quiet_editMessageText]])
   apply (rule hoare_if)
    apply (rule streamVideo_part0_settles)
   apply (rule downloadVideo_part0_settles)
  apply (rule quiet_settled [OF quiet_editMessageText])
  done

text \<open>
  The second file, for every way the services can answer: when the handler is done the
  scratch directory is empty and \<open>unlinkSync\<close> was called at most once.
\<close>

lemma part0_removes_at_most_once:
  "files (snd (on_text_part0 env text init)) = []
   \<and> length (filter is_unlink (trace (snd (on_text_part0 env text init)))) \<le> 1"
proof -
  have f: "fresh init" by (simp add: fresh_def init_def unlinks_def)
  obtain r w where run: "on_text_part0 env text init = (r, w)"
    by (cases "on_text_part0 env text init")
  from hoareD [OF on_text_part0_settles f run] have "settled w"
    by (cases r) simp_all
  with run show ?thesis by (simp add: settled_def unlinks_def)
qed

section \<open>The fallback and the status message in index.js\<close>


lemma downloadVideo_index_no_call_inside:
  "filter is_call (trace (snd (downloadVideo_index env url title duration statusMsg w))) =
     filter is_call (trace w) @ [Call_downloadVideo url title duration statusMsg]"
proof -
  have "filter is_call (trace (snd (try_catch
          (downloadVideo_index env url title duration statusMsg) throw w))) =
        filter is_call (trace w) @ [Call_downloadVideo url title duration statusMsg]"
    unfolding downloadVideo_index_def Let_def
    apply (simp add: catch_steps)
    apply (subst filter_after_emits)
     apply (intro emits_intros; simp)
    apply simp
    done
  then show ?thesis by (simp add: try_catch_throw_id)
qed

text \<open>
  In index.js every run of \<open>streamVideo\<close> enters \<open>streamVideo\<close> once and \<open>downloadVideo\<close>
  at most once, after it and with the same four arguments; it enters \<open>downloadVideo\<close>
  when the streamed upload is rejected.
\<close>

lemma streamVideo_index_calls:
  "filter is_call (trace (snd (streamVideo_index env url title duration statusMsg w))) =
     filter is_call (trace w) @ [Call_streamVideo url title duration statusMsg]
   \<or> filter is_call (trace (snd (streamVideo_index env url title duration statusMsg w))) =
     filter is_call (trace w) @
       [Call_streamVideo url title duration statusMsg,
        Call_downloadVideo url title duration statusMsg]"
proof -
  let ?body = "io_bind (ytdl url \<lparr>container_mp4 = False, quality = [str ''18''], userAgent = None\<rparr>)
      (\<lambda>stream. io_bind (sendVideo env Send_stream stream (caption_index title duration))
        (\<lambda>_. io_bind (message_id statusMsg)
          (\<lambda>i. io_bind (deleteMessage env Delete_streamed i)
            (\<lambda>_. not_awaited (reply env Reply_streamed streamed_index)))))"
  let ?w = "w\<lparr>trace := trace w @ [Call_streamVideo url title duration statusMsg]\<rparr>"
  have e: "emits (\<lambda>ev. \<not> is_call ev) ?body"
    by (intro emits_intros; simp)
  have b: "filter is_call (trace (snd (?body ?w))) =
      filter is_call (trace w) @ [Call_streamVideo url title duration statusMsg]"
    by (simp add: filter_after_emits [OF e])
  have s: "streamVideo_index env url title duration statusMsg w =
      try_catch ?body (\<lambda>err. downloadVideo_index env url title duration statusMsg) ?w"
    by (simp add: streamVideo_index_def bind_steps)
  show ?thesis
  proof (cases "fst (?body ?w)")
    case (Inr x)
    from try_catch_Inr [where m = ?body and w = ?w, OF this] b show ?thesis
      by (simp add: s)
  next
    case (Inl err)
    from try_catch_Inl [where m = ?body and w = ?w, OF this] b show ?thesis
      by (simp add: s downloadVideo_index_no_call_inside)
  qed
qed

lemma streamVideo_index_falls_back:
  assumes "rejects env Send_stream = Some m"
  shows "filter is_call (trace (snd (streamVideo_index env url title duration statusMsg w))) =
     filter is_call (trace w) @
       [Call_streamVideo url title duration statusMsg,
        Call_downloadVideo url title duration statusMsg]"
  by (simp add: index_stream_rejected [OF assms] downloadVideo_index_no_call_inside)

lemma index_status_after_download:
  assumes "visible w i" and "rejects env Edit_too_large = None"
    and "rejects env Delete_downloaded = None"
  shows "(fst (downloadVideo_index env url title duration (Some i) w) = Inr () \<and>
          (chat (snd (downloadVideo_index env url title duration (Some i) w)) ! i = Deleted \<or>
           chat (snd (downloadVideo_index env url title duration (Some i) w)) ! i =
             TextMessage too_large_index))
       \<or> ((\<exists>e. fst (downloadVideo_index env url title duration (Some i) w) = Inl e) \<and>
           visible (snd (downloadVideo_index env url title duration (Some i) w)) i)"
  using assms
  by (simp add: downloadVideo_index_def Let_def io_defs service_defs nth_append
      split: option.split transfer.split)

lemma index_status_after_stream:
  assumes "visible w i" and "rejects env Edit_too_large = None"
    and "rejects env Delete_downloaded = None" and "rejects env Delete_streamed = None"
  shows "(fst (streamVideo_index env url title duration (Some i) w) = Inr () \<and>
          (chat (snd (streamVideo_index env url title duration (Some i) w)) ! i = Deleted \<or>
           chat (snd (streamVideo_index env url title duration (Some i) w)) ! i =
             TextMessage too_large_index))
       \<or> ((\<exists>e. fst (streamVideo_index env url title duration (Some i) w) = Inl e) \<and>
           visible (snd (streamVideo_index env url title duration (Some i) w)) i)"
proof (cases "rejects env Send_stream")
  case (Some m)
  have v: "visible (w\<lparr>trace := t\<rparr>) i" for t
    using assms(1) by (simp add: visible_def)
  show ?thesis
    unfolding index_stream_rejected [OF Some]
    by (rule index_status_after_download [OF v assms(2,3)])
next
  case None
  with assms(1,4) show ?thesis
    by (simp add: streamVideo_index_def io_defs service_defs nth_append split: option.split)
qed


lemma index_status_final:
  assumes "validateURL env (trim text)"
    and "rejects env Reply_status = None" and "rejects env Edit_info = None"
    and "rejects env Edit_failed = None" and "rejects env Edit_too_large = None"
    and "rejects env Delete_streamed = None" and "rejects env Delete_downloaded = None"
  shows "chat (snd (on_text_index env text init)) ! 0 = Deleted
       \<or> chat (snd (on_text_index env text init)) ! 0 = TextMessage too_large_index
       \<or> chat (snd (on_text_index env text init)) ! 0 = TextMessage failed_index"
proof (cases "getInfo env (trim text)")
  case (Inl m)
  with assms(1,2,4) show ?thesis
    by (simp add: on_text_index_def Let_def reply_def getInfo_io_def editMessageText_def
        io_defs init_def visible_def)
next
  case (Inr v)
  let ?url = "trim text" and ?title = "take 50 (details_title v)"
    and ?duration = "Number_js (details_lengthSeconds v)"
  let ?w = "informed ?url None (downloading_text ?title)"
  let ?h = "\<lambda>err :: error. editMessageText env Edit_failed 0 failed_index"
  define m where "m = (if js_le ?duration (Num 120)
        then streamVideo_index env ?url ?title ?duration (Some 0)
        else downloadVideo_index env ?url ?title ?duration (Some 0))"
  have run: "on_text_index env text init = try_catch m ?h ?w"
    unfolding m_def by (rule on_text_index_selects [OF assms(1,2) Inr assms(3)])
  have m: "(fst (m ?w) = Inr () \<and>
          (chat (snd (m ?w)) ! 0 = Deleted \<or> chat (snd (m ?w)) ! 0 = TextMessage too_large_index))
       \<or> ((\<exists>e. fst (m ?w) = Inl e) \<and> visible (snd (m ?w)) 0)"
    unfolding m_def
    using index_status_after_stream [OF informed_simps(4) assms(5,7,6)]
      index_status_after_download [OF informed_simps(4) assms(5,7)]
    by (cases "js_le ?duration (Num 120)") simp_all
  show ?thesis
  proof (cases "fst (m ?w)")
    case (Inr x)
    with m try_catch_Inr [where m = m and w = ?w and h = ?h, OF Inr] show ?thesis
      by (auto simp add: run)
  next
    case (Inl e)
    with m have v: "visible (snd (m ?w)) 0" by simp
    then have "0 < length (chat (snd (m ?w)))" by (simp add: visible_def)
    with try_catch_Inl [where m = m and w = ?w and h = ?h, OF Inl]
      editMessageText_projections(3) [OF assms(4) v, of failed_index]
    show ?thesis by (simp add: run)
  qed
qed

section \<open>The delivery functions a request enters\<close>

lemma hoare_calls_quiet:
  assumes "emits (\<lambda>ev. \<not> is_call ev) m" and "\<And>w. calls w = cs \<Longrightarrow> R w"
    and "\<And>w w'. calls w' = calls w \<Longrightarrow> R w \<Longrightarrow> R w'"
  shows "hoare (\<lambda>w. calls w = cs) m (\<lambda>w. calls w = cs) R"
proof (rule hoareI)
  fix w r w' assume c: "calls w = cs" and mw: "m w = (r, w')"
  from filter_after_emits [OF assms(1), of w] mw c have "calls w' = cs"
    by (simp add: calls_def)
  with assms(2) show "case r of Inl e \<Rightarrow> R w' | Inr x \<Rightarrow> calls w' = cs"
    by (cases r) simp_all
qed

lemma hoare_calls_keep:
  assumes "emits (\<lambda>ev. \<not> is_call ev) m"
  shows "hoare (\<lambda>w. R (calls w)) m (\<lambda>w. R (calls w)) (\<lambda>w. R (calls w))"
proof (rule hoare_same)
  fix w assume "R (calls w)"
  with filter_after_emits [OF assms, of w] show "R (calls (snd (m w)))"
    by (simp add: calls_def)
qed

lemma emits_getInfo_io: "P (GetInfo url ua) \<Longrightarrow> emits P (getInfo_io env url ua)"
  unfolding getInfo_io_def
  by (rule emits_bind, erule emits_emit, simp add: emits_return emits_throw split: sum.split)

lemma hoare_emit:
  assumes "\<And>w. P w \<Longrightarrow> Q (w\<lparr>trace := trace w @ [ev]\<rparr>)"
  shows "hoare P (emit ev) Q E"
  by (rule hoareI) (auto simp: emit_def assms)

lemma downloadVideo_part0_no_call_inside:
  "filter is_call (trace (snd (downloadVideo_part0 env url title duration statusMsg w))) =
     filter is_call (trace w) @ [Call_downloadVideo url title duration statusMsg]"
  unfolding downloadVideo_part0_def Let_def
  apply (simp add: bind_steps)
  apply (subst filter_after_emits)
   apply (intro emits_intros; simp)
  apply simp
  done

lemma hoare_downloadVideo_calls:
  "hoare (\<lambda>w. calls w = cs) (downloadVideo_index env url title duration statusMsg)
     (\<lambda>w. calls w = cs @ [Call_downloadVideo url title duration statusMsg])
     (\<lambda>w. calls w = cs @ [Call_downloadVideo url title duration statusMsg])"
  "hoare (\<lambda>w. calls w = cs) (downloadVideo_part0 env url title duration statusMsg)
     (\<lambda>w. calls w = cs @ [Call_downloadVideo url title duration statusMsg])
     (\<lambda>w. calls w = cs @ [Call_downloadVideo url title duration statusMsg])"
  by (rule hoare_same, simp add: calls_def downloadVideo_index_no_call_inside
      downloadVideo_part0_no_call_inside)+

text \<open>
  In the second file, too, a run of \<open>streamVideo\<close> enters \<open>streamVideo\<close> once and
  \<open>downloadVideo\<close> at most once, after it; but the call it makes is one without the
  status message.
\<close>

lemma hoare_streamVideo_part0_calls:
  "hoare (\<lambda>w. calls w = cs) (streamVideo_part0 env url title duration statusMsg)
     (\<lambda>w. calls w = cs @ [Call_streamVideo url title duration statusMsg] \<or>
          calls w = cs @ [Call_streamVideo url title duration statusMsg,
                          Call_downloadVideo url title duration None])
     (\<lambda>w. calls w = cs @ [Call_streamVideo url title duration statusMsg] \<or>
          calls w = cs @ [Call_streamVideo url title duration statusMsg,
                          Call_downloadVideo url title duration None])"
  unfolding streamVideo_part0_def
  apply (rule hoare_bind
      [where R = "\<lambda>w. calls w = cs @ [Call_streamVideo url title duration statusMsg]"])
   apply (rule hoare_emit)
   apply (simp add: calls_def)
  apply (rule hoare_catch
      [where R = "\<lambda>w. calls w = cs @ [Call_streamVideo url title duration statusMsg]"])
   apply (rule hoare_weaken [OF hoare_calls_keep
        [where R = "\<lambda>c. c = cs @ [Call_streamVideo url title duration statusMsg]"]])
     apply (intro emits_intros; simp)
    apply simp
   apply simp
  apply (rule hoare_bind
      [where R = "\<lambda>w. calls w = cs @ [Call_streamVideo url title duration statusMsg]"])
   apply (rule hoare_calls_quiet)
     apply (rule emits_message_id)
    apply simp
   apply simp
  apply (rule hoare_bind
      [where R = "\<lambda>w. calls w = cs @ [Call_streamVideo url title duration statusMsg]"])
   apply (rule hoare_calls_quiet)
     apply (rule emits_deleteMessage)
     apply simp
    apply simp
   apply simp
  apply (rule hoare_weaken [OF hoare_downloadVideo_calls(2)])
   apply simp
  apply simp
  done

lemma hoare_streamVideo_index_calls:
  "hoare (\<lambda>w. calls w = cs) (streamVideo_index env url title duration statusMsg)
     (\<lambda>w. calls w = cs @ [Call_streamVideo url title duration statusMsg] \<or>
          calls w = cs @ [Call_streamVideo url title duration statusMsg,
                          Call_downloadVideo url title duration statusMsg])
     (\<lambda>w. calls w = cs @ [Call_streamVideo url title duration statusMsg] \<or>
          calls w = cs @ [Call_streamVideo url title duration statusMsg,
                          Call_downloadVideo url title duration statusMsg])"
proof (rule hoare_same)
  fix w assume "calls w = cs"
  with streamVideo_index_calls [of env url title duration statusMsg w]
  show "calls (snd (streamVideo_index env url title duration statusMsg w)) =
          cs @ [Call_streamVideo url title duration statusMsg] \<or>
        calls (snd (streamVideo_index env url title duration statusMsg w)) =
          cs @ [Call_streamVideo url title duration statusMsg,
                Call_downloadVideo url title duration statusMsg]"
    by (simp add: calls_def)
qed

lemma bounded_weaken:
  "calls w = [] @ [Call_downloadVideo url title duration statusMsg] \<Longrightarrow> bounded_calls (calls w)"
  "calls w = [] @ [Call_streamVideo url title duration statusMsg] \<or>
   calls w = [] @ [Call_streamVideo url title duration statusMsg,
                   Call_downloadVideo url title duration statusMsg'] \<Longrightarrow> bounded_calls (calls w)"
  "calls w = [] \<Longrightarrow> bounded_calls (calls w)"
  by auto

lemma on_text_index_bounded:
  "hoare (\<lambda>w. calls w = []) (on_text_index env text)
     (\<lambda>w. bounded_calls (calls w)) (\<lambda>w. bounded_calls (calls w))"
  unfolding on_text_index_def Let_def
  apply (rule hoare_if)
   apply (rule hoare_weaken [OF hoare_calls_keep [where R = "\<lambda>c. c = []"]])
     apply (intro emits_intros; simp)
    apply simp
   apply simp
  apply (rule hoare_bind [where R = "\<lambda>w. calls w = []"])
   apply (rule hoare_calls_quiet)
     apply (rule emits_reply, simp)
    apply simp
   apply simp
  apply (rule hoare_catch [where R = "\<lambda>w. bounded_calls (calls w)"])
   apply (rule hoare_bind [where R = "\<lambda>w. calls w = []"])
    apply (rule hoare_calls_quiet)
      apply (rule emits_getInfo_io, simp)
     apply simp
    apply simp
   apply (rule hoare_bind [where R = "\<lambda>w. calls w = []"])
    apply (rule hoare_calls_quiet)
      apply (rule emits_editMessageText, simp)
     apply simp
    apply simp
   apply (rule hoare_if)
    apply (rule hoare_weaken [OF hoare_streamVideo_index_calls])
     apply (erule bounded_weaken)
    apply (erule bounded_weaken)
   apply (rule hoare_weaken [OF hoare_downloadVideo_calls(1)])
    apply (erule bounded_weaken)
   apply (erule bounded_weaken)
  apply (rule hoare_calls_keep)
  apply (rule emits_editMessageText, simp)
  done

lemma on_text_part0_bounded:
  "hoare (\<lambda>w. calls w = []) (on_text_part0 env text)
     (\<lambda>w. bounded_calls (calls w)) (\<lambda>w. bounded_calls (calls w))"
  unfolding on_text_part0_def Let_def
  apply (rule hoare_if)
   apply (rule hoare_weaken [OF hoare_calls_keep [where R = "\<lambda>c. c = []"]])
     apply (intro emits_intros; simp)
    apply simp
   apply simp
  apply (rule hoare_bind [where R = "\<lambda>w. calls w = []"])
   apply (rule hoare_calls_quiet)
     apply (rule emits_reply, simp)
    apply simp
   apply simp
  apply (rule hoare_catch [where R = "\<lambda>w. bounded_calls (calls w)"])
   apply (rule hoare_bind [where R = "\<lambda>w. calls w = []"])
    apply (rule hoare_calls_quiet)
      apply (rule emits_getInfo_io, simp)
     apply simp
    apply simp
   apply (rule hoare_bind [where R = "\<lambda>w. calls w = []"])
    apply (rule hoare_calls_quiet)
      apply (rule emits_editMessageText, simp)
     apply simp
    apply simp
   apply (rule hoare_if)
    apply (rule hoare_weaken [OF hoare_streamVideo_part0_calls])
     apply (erule bounded_weaken)
    apply (erule bounded_weaken)
   apply (rule hoare_weaken [OF hoare_downloadVideo_calls(2)])
    apply (erule bounded_weaken)
   apply (erule bounded_weaken)
  apply (rule hoare_calls_keep)
  apply (rule emits_editMessageText, simp)
  done

text \<open>
  Both files, for every way the services can answer: a request enters at most two
  delivery functions, and when it enters two they are \<open>streamVideo\<close> first and
  \<open>downloadVideo\<close> second. No request streams twice, downloads twice, or streams
  after a download.
\<close>

lemma one_stream_then_one_download:
  "bounded_calls (calls (snd (on_text_index env text init)))
   \<and> bounded_calls (calls (snd (on_text_part0 env text init)))"
proof -
  have c: "calls init = []" by (simp add: calls_def init_def)
  obtain r w where i: "on_text_index env text init = (r, w)"
    by (cases "on_text_index env text init")
  obtain r' w' where p: "on_text_part0 env text init = (r', w')"
    by (cases "on_text_part0 env text init")
  from hoareD [OF on_text_index_bounded c i] have "bounded_calls (calls w)"
    by (cases r) simp_all
  moreover from hoareD [OF on_text_part0_bounded c p] have "bounded_calls (calls w')"
    by (cases r') simp_all
  ultimately show ?thesis by (simp add: i p)
qed

section \<open>The same requests in the other file\<close>


text \<open>
  The request of C1 in the second file: the rejected upload is caught, the file is
  removed by the one call of \<open>unlinkSync\<close>, and the status message tells the error.
\<close>

lemma part0_removes_file_after_failed_upload:
  "files (snd (on_text_part0
       (example_env (str ''clip'') (str ''300'') (Finished 1000000)
          (rejecting Send_file (str ''ETIMEDOUT''))) watch_url init)) = []
   \<and> filter is_unlink (trace (snd (on_text_part0
       (example_env (str ''clip'') (str ''300'') (Finished 1000000)
          (rejecting Send_file (str ''ETIMEDOUT''))) watch_url init))) =
       [UnlinkSync (filepath_of (example_env (str ''clip'') (str ''300'') (Finished 1000000)
          (rejecting Send_file (str ''ETIMEDOUT''))) (str ''clip''))]
   \<and> chat (snd (on_text_part0
       (example_env (str ''clip'') (str ''300'') (Finished 1000000)
          (rejecting Send_file (str ''ETIMEDOUT''))) watch_url init)) =
       [TextMessage (download_failed_part0 (Error (str ''ETIMEDOUT'')))]"
proof -
  let ?env = "example_env (str ''clip'') (str ''300'') (Finished 1000000)
                (rejecting Send_file (str ''ETIMEDOUT''))"
  let ?w = "informed watch_url (Some agent_getInfo) (preparing_part0 (str ''clip'') (Num 300))"
  let ?m = "downloadVideo_part0 ?env watch_url (str ''clip'') (Num 300) (Some 0)"
  have a: "validateURL ?env (trim watch_url)"
    by (simp add: trim_watch_url valid_watch_url)
  have b: "rejects ?env Reply_status = None" "rejects ?env Edit_info = None"
    "rejects ?env Edit_downloading = None" "rejects ?env Edit_download_failed = None"
    "rejects ?env Send_file = Some (str ''ETIMEDOUT'')"
    by (simp_all add: example_env_simps rejecting_def)
  have c: "getInfo ?env (trim watch_url) =
             Inr \<lparr>details_title = str ''clip'', details_lengthSeconds = str ''300''\<rparr>"
    by (simp add: example_env_simps)
  have p: "piped ?env = Finished 1000000" "(1000000::nat) \<le> 48 * 1024 * 1024"
    by (simp_all add: example_env_simps)
  note r = part0_upload_rejected [OF p b(5) informed_simps(4) b(3) b(4),
      where url = watch_url and title = "str ''clip''" and duration = "Num 300"]
  have "on_text_part0 ?env watch_url init = ?m ?w"
    using on_text_part0_selects [OF a b(1) c b(2)]
      try_catch_Inr [where m = ?m and w = ?w, OF r(1)]
    by (simp add: trim_watch_url take_50_clip Number_js_examples)
  then show ?thesis
    by (simp add: r informed_simps)
qed

text \<open>
  The request of C1 with a transfer that breaks after 4096 bytes: index.js leaves the
  partial file as well.
\<close>

lemma index_leaves_file_after_broken_transfer:
  "files (snd (on_text_index
       (example_env (str ''clip'') (str ''300'') (Broken (str ''ECONNRESET'') (Some 4096))
          accepting) watch_url init)) =
     [(filepath_of (example_env (str ''clip'') (str ''300'')
          (Broken (str ''ECONNRESET'') (Some 4096)) accepting) (str ''clip''), 4096)]
   \<and> filter is_unlink (trace (snd (on_text_index
       (example_env (str ''clip'') (str ''300'') (Broken (str ''ECONNRESET'') (Some 4096))
          accepting) watch_url init))) = []"
proof -
  let ?env = "example_env (str ''clip'') (str ''300'') (Broken (str ''ECONNRESET'') (Some 4096))
                accepting"
  let ?w = "informed watch_url None (downloading_text (str ''clip''))"
  let ?m = "downloadVideo_index ?env watch_url (str ''clip'') (Num 300) (Some 0)"
  have a: "validateURL ?env (trim watch_url)"
    by (simp add: trim_watch_url valid_watch_url)
  have b: "rejects ?env Reply_status = None" "rejects ?env Edit_info = None"
    "rejects ?env Edit_failed = None"
    by (simp_all add: example_env_simps accepting_def)
  have c: "getInfo ?env (trim watch_url) =
             Inr \<lparr>details_title = str ''clip'', details_lengthSeconds = str ''300''\<rparr>"
    by (simp add: example_env_simps)
  have p: "piped ?env = Broken (str ''ECONNRESET'') (Some 4096)"
    by (simp add: example_env_simps)
  note r = index_transfer_broken [OF p, of watch_url "str ''clip''" "Num 300" "Some 0" ?w]
  have run: "on_text_index ?env watch_url init =
      editMessageText ?env Edit_failed 0 failed_index (snd (?m ?w))"
    using on_text_index_selects [OF a b(1) c b(2)]
      try_catch_Inl [where m = ?m and w = ?w, OF r(1)]
    by (simp add: trim_watch_url take_50_clip Number_js_examples)
  show ?thesis
    unfolding run
    by (simp add: editMessageText_projections(1,2) r informed_simps)
qed

text \<open>
  The request of C3 in the second file: the text of the status message carries the
  measured size, with one decimal.
\<close>

lemma part0_too_large_text_has_size:
  "chat (snd (on_text_part0
       (example_env (str ''clip'') (str ''300'') (Finished (49 * 1024 * 1024)) accepting)
       watch_url init)) =
     [TextMessage (package @ str '' Video too large (49.0MB)'' @ nl @ str ''Max: 48MB'')]
   \<and> files (snd (on_text_part0
       (example_env (str ''clip'') (str ''300'') (Finished (49 * 1024 * 1024)) accepting)
       watch_url init)) = []
   \<and> filter is_upload (trace (snd (on_text_part0
       (example_env (str ''clip'') (str ''300'') (Finished (49 * 1024 * 1024)) accepting)
       watch_url init))) = []"
proof -
  let ?env = "example_env (str ''clip'') (str ''300'') (Finished (49 * 1024 * 1024)) accepting"
  let ?w = "informed watch_url (Some agent_getInfo) (preparing_part0 (str ''clip'') (Num 300))"
  let ?m = "downloadVideo_part0 ?env watch_url (str ''clip'') (Num 300) (Some 0)"
  have a: "validateURL ?env (trim watch_url)"
    by (simp add: trim_watch_url valid_watch_url)
  have b: "rejects ?env Reply_status = None" "rejects ?env Edit_info = None"
    "rejects ?env Edit_downloading = None" "rejects ?env Edit_too_large = None"
    by (simp_all add: example_env_simps accepting_def)
  have c: "getInfo ?env (trim watch_url) =
             Inr \<lparr>details_title = str ''clip'', details_lengthSeconds = str ''300''\<rparr>"
    by (simp add: example_env_simps)
  have p: "piped ?env = Finished (49 * 1024 * 1024)" "(48::nat) * 1024 * 1024 < 49 * 1024 * 1024"
    by (simp_all add: example_env_simps)
  note r = part0_oversize [OF p informed_simps(4) b(3) b(4),
      where url = watch_url and title = "str ''clip''" and duration = "Num 300"]
  have t: "too_large_part0 (of_nat (49 * 1024 * 1024) / (1024 * 1024)) =
      package @ str '' Video too large (49.0MB)'' @ nl @ str ''Max: 48MB''"
    unfolding too_large_part0_def toFixed1_49 by (simp add: str_def)
  have "on_text_part0 ?env watch_url init = ?m ?w"
    using on_text_part0_selects [OF a b(1) c b(2)]
      try_catch_Inr [where m = ?m and w = ?w, OF r(1)]
    by (simp add: trim_watch_url take_50_clip Number_js_examples)
  then show ?thesis
    unfolding r(2) [symmetric]
    by (simp only: r t informed_simps) simp
qed

text \<open>
  The request of C5 in index.js: the fallback passes the status message on, the
  download runs, the video arrives and the status message is deleted.
\<close>

lemma index_fallback_delivers:
  "calls (snd (on_text_index
       (example_env (str ''clip'') (str ''60'') (Finished 1000000)
          (rejecting Send_stream (str ''ETIMEDOUT''))) watch_url init)) =
     [Call_streamVideo watch_url (str ''clip'') (Num 60) (Some 0),
      Call_downloadVideo watch_url (str ''clip'') (Num 60) (Some 0)]
   \<and> chat (snd (on_text_index
       (example_env (str ''clip'') (str ''60'') (Finished 1000000)
          (rejecting Send_stream (str ''ETIMEDOUT''))) watch_url init)) =
     [Deleted,
      VideoMessage
        (File (filepath_of (example_env (str ''clip'') (str ''60'') (Finished 1000000)
           (rejecting Send_stream (str ''ETIMEDOUT''))) (str ''clip'')))
        (caption_index (str ''clip'') (Num 60)),
      TextMessage downloaded_text]
   \<and> files (snd (on_text_index
       (example_env (str ''clip'') (str ''60'') (Finished 1000000)
          (rejecting Send_stream (str ''ETIMEDOUT''))) watch_url init)) = []"
proof -
  let ?env = "example_env (str ''clip'') (str ''60'') (Finished 1000000)
                (rejecting Send_stream (str ''ETIMEDOUT''))"
  let ?w = "informed watch_url None (downloading_text (str ''clip''))"
  define w' where "w' = ?w\<lparr>trace := trace ?w @
           [Call_streamVideo watch_url (str ''clip'') (Num 60) (Some 0),
            Ytdl watch_url \<lparr>container_mp4 = False, quality = [str ''18''], userAgent = None\<rparr>,
            SendVideo (Stream watch_url
               \<lparr>container_mp4 = False, quality = [str ''18''], userAgent = None\<rparr>)
              (caption_index (str ''clip'') (Num 60))]\<rparr>"
  let ?m = "streamVideo_index ?env watch_url (str ''clip'') (Num 60) (Some 0)"
  let ?d = "downloadVideo_index ?env watch_url (str ''clip'') (Num 60) (Some 0)"
  have a: "validateURL ?env (trim watch_url)"
    by (simp add: trim_watch_url valid_watch_url)
  have b: "rejects ?env Reply_status = None" "rejects ?env Edit_info = None"
    "rejects ?env Send_file = None" "rejects ?env Delete_downloaded = None"
    "rejects ?env Reply_downloaded = None" "rejects ?env Send_stream = Some (str ''ETIMEDOUT'')"
    by (simp_all add: example_env_simps rejecting_def)
  have c: "getInfo ?env (trim watch_url) =
             Inr \<lparr>details_title = str ''clip'', details_lengthSeconds = str ''60''\<rparr>"
    by (simp add: example_env_simps)
  have p: "piped ?env = Finished 1000000" "(1000000::nat) \<le> 48 * 1024 * 1024"
    by (simp_all add: example_env_simps)
  have w': "visible w' 0" "chat w' = [TextMessage (downloading_text (str ''clip''))]"
    "files w' = []"
    "filter is_call (trace w') = [Call_streamVideo watch_url (str ''clip'') (Num 60) (Some 0)]"
    by (simp_all add: w'_def visible_def informed_simps)
  have s: "?m ?w = ?d w'"
    unfolding w'_def by (rule index_stream_rejected [OF b(6)])
  note r = index_delivers_file [OF p b(3) w'(1) b(4) b(5),
      where url = watch_url and title = "str ''clip''" and duration = "Num 60"]
  have f: "fst (?m ?w) = Inr ()"
    unfolding s by (rule r(1))
  have "on_text_index ?env watch_url init = ?d w'"
    using on_text_index_selects [OF a b(1) c b(2)]
      try_catch_Inr [where m = ?m and w = ?w, OF f]
    by (simp add: trim_watch_url take_50_clip Number_js_examples s)
  then show ?thesis
    by (simp add: r w' calls_def)
qed

text \<open>
  The request of C4 in index.js: its \<open>catch\<close> calls \<open>downloadVideo\<close> at once, so the
  request enters \<open>downloadVideo\<close> after \<open>streamVideo\<close>, with the same arguments, and the
  video arrives.
\<close>

lemma index_fallback_not_refused:
  "calls (snd (on_text_index
       (example_env (str ''clip'') (str ''60'') (Finished 1000000)
          ((rejecting Send_stream (str ''ETIMEDOUT''))
             (Delete_fallback := Some (str ''400: Bad Request: MESSAGE_DELETE_FORBIDDEN'')))) watch_url init)) =
     [Call_streamVideo watch_url (str ''clip'') (Num 60) (Some 0),
      Call_downloadVideo watch_url (str ''clip'') (Num 60) (Some 0)]
   \<and> chat (snd (on_text_index
       (example_env (str ''clip'') (str ''60'') (Finished 1000000)
          ((rejecting Send_stream (str ''ETIMEDOUT''))
             (Delete_fallback := Some (str ''400: Bad Request: MESSAGE_DELETE_FORBIDDEN'')))) watch_url init)) =
     [Deleted,
      VideoMessage
        (File (filepath_of (example_env (str ''clip'') (str ''60'') (Finished 1000000)
           ((rejecting Send_stream (str ''ETIMEDOUT''))
             (Delete_fallback := Some (str ''400: Bad Request: MESSAGE_DELETE_FORBIDDEN'')))) (str ''clip'')))
        (caption_index (str ''clip'') (Num 60)),
      TextMessage downloaded_text]
   \<and> files (snd (on_text_index
       (example_env (str ''clip'') (str ''60'') (Finished 1000000)
          ((rejecting Send_stream (str ''ETIMEDOUT''))
             (Delete_fallback := Some (str ''400: Bad Request: MESSAGE_DELETE_FORBIDDEN'')))) watch_url init)) = []"
proof -
  let ?env = "example_env (str ''clip'') (str ''60'') (Finished 1000000)
                ((rejecting Send_stream (str ''ETIMEDOUT''))
                   (Delete_fallback := Some (str ''400: Bad Request: MESSAGE_DELETE_FORBIDDEN'')))"
  let ?w = "informed watch_url None (downloading_text (str ''clip''))"
  define w' where "w' = ?w\<lparr>trace := trace ?w @
           [Call_streamVideo watch_url (str ''clip'') (Num 60) (Some 0),
            Ytdl watch_url \<lparr>container_mp4 = False, quality = [str ''18''], userAgent = None\<rparr>,
            SendVideo (Stream watch_url
               \<lparr>container_mp4 = False, quality = [str ''18''], userAgent = None\<rparr>)
              (caption_index (str ''clip'') (Num 60))]\<rparr>"
  let ?m = "streamVideo_index ?env watch_url (str ''clip'') (Num 60) (Some 0)"
  let ?d = "downloadVideo_index ?env watch_url (str ''clip'') (Num 60) (Some 0)"
  have a: "validateURL ?env (trim watch_url)"
    by (simp add: trim_watch_url valid_watch_url)
  have b: "rejects ?env Reply_status = None" "rejects ?env Edit_info = None"
    "rejects ?env Send_file = None" "rejects ?env Delete_downloaded = None"
    "rejects ?env Reply_downloaded = None" "rejects ?env Send_stream = Some (str ''ETIMEDOUT'')"
    by (simp_all add: example_env_simps rejecting_def)
  have c: "getInfo ?env (trim watch_url) =
             Inr \<lparr>details_title = str ''clip'', details_lengthSeconds = str ''60''\<rparr>"
    by (simp add: example_env_simps)
  have p: "piped ?env = Finished 1000000" "(1000000::nat) \<le> 48 * 1024 * 1024"
    by (simp_all add: example_env_simps)
  have w': "visible w' 0" "chat w' = [TextMessage (downloading_text (str ''clip''))]"
    "files w' = []"
    "filter is_call (trace w') = [Call_streamVideo watch_url (str ''clip'') (Num 60) (Some 0)]"
    by (simp_all add: w'_def visible_def informed_simps)
  have s: "?m ?w = ?d w'"
    unfolding w'_def by (rule index_stream_rejected [OF b(6)])
  note r = index_delivers_file [OF p b(3) w'(1) b(4) b(5),
      where url = watch_url and title = "str ''clip''" and duration = "Num 60"]
  have f: "fst (?m ?w) = Inr ()"
    unfolding s by (rule r(1))
  have "on_text_index ?env watch_url init = ?d w'"
    using on_text_index_selects [OF a b(1) c b(2)]
      try_catch_Inr [where m = ?m and w = ?w, OF f]
    by (simp add: trim_watch_url take_50_clip Number_js_examples s)
  then show ?thesis
    by (simp add: r w' calls_def)
qed

end
